theory Spec2Isabelle
  imports Main "HOL-Library.Multiset"
begin

section \<open>Values and errors\<close>

text \<open>
  The glossary reads SKOS documents with lxml, keeps what it reads in three ORM classes
  and serves them as dictionaries. lxml's \<^verbatim>\<open>get\<close> and \<^verbatim>\<open>text\<close> give either a
  string or None, and the classes store what they get, so a string slot is a
  \<open>string option\<close>: \<open>None\<close> is Python's None.
\<close>

type_synonym pystr = "string option"

text \<open>
  Exceptions are values; the string is what \<^verbatim>\<open>str(error)\<close> gives. \<open>LibraryError\<close> stands
  for any exception a library raises while downloading, writing or parsing a file.
\<close>

datatype error =
    TypeError string
  | AttributeError string
  | KeyError string
  | SyntaxError string
  | ValueError string
  | IntegrityError string
  | MultipleResultsFound string
  | LibraryError string

fun str :: "error \<Rightarrow> string" where
  "str (TypeError m) = m"
| "str (AttributeError m) = m"
| "str (KeyError m) = m"
| "str (SyntaxError m) = m"
| "str (ValueError m) = m"
| "str (IntegrityError m) = m"
| "str (MultipleResultsFound m) = m"
| "str (LibraryError m) = m"

text \<open>Sequencing of calls that may raise: the first exception ends the computation.\<close>

definition bind :: "error + 'a \<Rightarrow> ('a \<Rightarrow> error + 'b) \<Rightarrow> error + 'b" where
  "bind m f = (case m of Inl e \<Rightarrow> Inl e | Inr x \<Rightarrow> f x)"

fun mapM :: "('a \<Rightarrow> error + 'b) \<Rightarrow> 'a list \<Rightarrow> error + 'b list" where
  "mapM f [] = Inr []"
| "mapM f (x # xs) = bind (f x) (\<lambda>y. bind (mapM f xs) (\<lambda>ys. Inr (y # ys)))"

section \<open>Dictionaries\<close>

text \<open>
  A Python dict is an association list in insertion order with distinct keys.
  \<open>dict_set\<close> is \<^verbatim>\<open>d[k] = v\<close>: a key already there keeps its place and takes the new
  value. \<open>dict_of\<close> is a dict comprehension over the pairs in order, \<open>dict_get\<close> is
  \<^verbatim>\<open>d.get(k, default)\<close>, and \<open>dict_eq\<close> is \<^verbatim>\<open>==\<close> on dicts: the same number of entries,
  and every entry of the left one found with an equal value in the right one.
\<close>

fun dict_set :: "('k \<times> 'v) list \<Rightarrow> 'k \<Rightarrow> 'v \<Rightarrow> ('k \<times> 'v) list" where
  "dict_set [] k v = [(k, v)]"
| "dict_set ((k', v') # d) k v = (if k' = k then (k, v) # d else (k', v') # dict_set d k v)"

definition dict_of :: "('k \<times> 'v) list \<Rightarrow> ('k \<times> 'v) list" where
  "dict_of kvs = foldl (\<lambda>d (k, v). dict_set d k v) [] kvs"

definition dict_get :: "('k \<times> 'v) list \<Rightarrow> 'k \<Rightarrow> 'v \<Rightarrow> 'v" where
  "dict_get d k default_value = (case map_of d k of Some v \<Rightarrow> v | None \<Rightarrow> default_value)"

definition dict_eq :: "('k \<times> 'v) list \<Rightarrow> ('k \<times> 'v) list \<Rightarrow> bool" where
  "dict_eq d1 d2 = (length d1 = length d2 \<and> list_all (\<lambda>(k, v). map_of d2 k = Some v) d1)"

section \<open>The model classes\<close>

datatype SemanticRelationType =
  BROADER | NARROWER | RELATED | BROADER_TRANSITIVE | NARROWER_TRANSITIVE

fun "value" :: "SemanticRelationType \<Rightarrow> string" where
  "value BROADER = ''broader''"
| "value NARROWER = ''narrower''"
| "value RELATED = ''related''"
| "value BROADER_TRANSITIVE = ''broaderTransitive''"
| "value NARROWER_TRANSITIVE = ''narrowerTransitive''"

text \<open>Iterating over the enum class gives its members in the order of their definition.\<close>

definition SemanticRelationType_members :: "SemanticRelationType list" where
  "SemanticRelationType_members =
     [BROADER, NARROWER, RELATED, BROADER_TRANSITIVE, NARROWER_TRANSITIVE]"

text \<open>
  The columns of the three mapped classes. \<open>notation'\<close> is the column \<^verbatim>\<open>notation\<close>.
  A concept is its columns together with the relationship \<^verbatim>\<open>concept_schemes\<close>.
\<close>

record ConceptScheme =
  iri :: pystr
  notation' :: pystr
  scopeNote :: pystr
  prefLabels :: "(pystr \<times> pystr) list"

record Concept_columns =
  iri :: pystr
  "identifier" :: pystr
  notation' :: pystr
  prefLabels :: "(pystr \<times> pystr) list"
  altLabels :: "(pystr \<times> pystr) list"
  scopeNotes :: "(pystr \<times> pystr) list"

record Concept = Concept_columns +
  concept_schemes :: "ConceptScheme list"

record SemanticRelation =
  type :: SemanticRelationType
  source_concept_iri :: pystr
  target_concept_iri :: pystr

subsection \<open>Base.get\_in\_language\<close>

definition get_in_language :: "(pystr \<times> pystr) list \<Rightarrow> string \<Rightarrow> pystr" where
  "get_in_language attribute lang =
     dict_get attribute (Some lang) (dict_get attribute (Some ''en'') (Some ''''))"

subsection \<open>to\_dict\<close>

definition ConceptScheme_to_dict :: "ConceptScheme \<Rightarrow> string \<Rightarrow> (string \<times> pystr) list" where
  "ConceptScheme_to_dict self lang =
     [(''iri'', ConceptScheme.iri self),
      (''notation'', ConceptScheme.notation' self),
      (''scopeNote'', scopeNote self),
      (''prefLabel'', get_in_language (ConceptScheme.prefLabels self) lang)]"

definition Concept_to_dict :: "Concept \<Rightarrow> string \<Rightarrow> (string \<times> pystr) list" where
  "Concept_to_dict self lang =
     [(''iri'', Concept_columns.iri self),
      (''identifier'', identifier self),
      (''notation'', Concept_columns.notation' self),
      (''prefLabel'', get_in_language (Concept_columns.prefLabels self) lang),
      (''altLabel'', get_in_language (altLabels self) lang),
      (''scopeNote'', get_in_language (scopeNotes self) lang)]"

definition SemanticRelation_to_dict :: "SemanticRelation \<Rightarrow> (string \<times> pystr) list" where
  "SemanticRelation_to_dict self =
     [(''type'', Some (value (type self))),
      (''source_concept_iri'', source_concept_iri self),
      (''target_concept_iri'', target_concept_iri self)]"

subsection \<open>Base.\_\_eq\_\_\<close>

text \<open>
  An instance of one of the three classes. \<^verbatim>\<open>__eq__\<close> calls \<^verbatim>\<open>to_dict()\<close> with no
  argument on both sides, so schemes and concepts are serialised in the default
  language \<^verbatim>\<open>"en"\<close>.
\<close>

datatype Base = A_ConceptScheme ConceptScheme | A_Concept Concept | A_SemanticRelation SemanticRelation

fun to_dict :: "Base \<Rightarrow> (string \<times> pystr) list" where
  "to_dict (A_ConceptScheme s) = ConceptScheme_to_dict s ''en''"
| "to_dict (A_Concept c) = Concept_to_dict c ''en''"
| "to_dict (A_SemanticRelation r) = SemanticRelation_to_dict r"

definition Base_eq :: "Base \<Rightarrow> Base \<Rightarrow> bool" where
  "Base_eq self other = dict_eq (to_dict self) (to_dict other)"

section \<open>XML elements\<close>

text \<open>
  An lxml element: its tag and attribute names in Clark notation \<^verbatim>\<open>{uri}local\<close>, its
  namespace map from prefixes to URIs, its text \<open>text'\<close> (None when the element has none) and
  its child elements in document order.
\<close>

datatype element = Element (tag: string) (attrib: "(string \<times> string) list")
  (nsmap: "(string \<times> string) list") (text': pystr) (children: "element list")

definition clark :: "string \<Rightarrow> string \<Rightarrow> string" where
  "clark uri local = ''{'' @ uri @ ''}'' @ local"

definition xml_namespace :: string where
  "xml_namespace = ''{http://www.w3.org/XML/1998/namespace}''"

text \<open>
  \<open>getitem\<close> is \<^verbatim>\<open>d[k]\<close> on a dict of strings: a missing key raises KeyError, whose
  \<^verbatim>\<open>str\<close> is the key in quotes. \<open>get\<close> is \<^verbatim>\<open>element.get(key)\<close>: None when the attribute
  is absent.
\<close>

definition getitem :: "(string \<times> string) list \<Rightarrow> string \<Rightarrow> error + string" where
  "getitem d k =
     (case map_of d k of
        None \<Rightarrow> Inl (KeyError ([CHR 0x27] @ k @ [CHR 0x27]))
      | Some v \<Rightarrow> Inr v)"

definition get :: "element \<Rightarrow> string \<Rightarrow> pystr" where
  "get element key = map_of (attrib element) key"

text \<open>
  The paths the glossary searches for are single steps \<^verbatim>\<open>prefix:local\<close>. ElementPath
  replaces the prefix by its URI in the given namespace map and raises SyntaxError when
  the map does not bind it; \<open>findall\<close> then gives the children with that tag, in
  document order, and \<open>find\<close> the first of them or None.
\<close>

definition qname :: "string \<Rightarrow> (string \<times> string) list \<Rightarrow> error + string" where
  "qname path namespaces =
     (if CHR '':'' \<notin> set path then Inr path
      else let prefix = takeWhile (\<lambda>c. c \<noteq> CHR '':'') path;
               local = drop (length prefix + 1) path
           in case map_of namespaces prefix of
                None \<Rightarrow> Inl (SyntaxError
                  (''prefix '' @ [CHR 0x27] @ prefix @ [CHR 0x27] @ '' not found in prefix map''))
              | Some uri \<Rightarrow> Inr (clark uri local))"

definition findall :: "element \<Rightarrow> string \<Rightarrow> (string \<times> string) list \<Rightarrow> error + element list" where
  "findall element path namespaces =
     bind (qname path namespaces) (\<lambda>t. Inr (filter (\<lambda>child. tag child = t) (children element)))"

definition find :: "element \<Rightarrow> string \<Rightarrow> (string \<times> string) list \<Rightarrow> error + element option" where
  "find element path namespaces =
     bind (findall element path namespaces)
       (\<lambda>found. Inr (case found of [] \<Rightarrow> None | first # _ \<Rightarrow> Some first))"

subsection \<open>Base.get\_sub\_element\_text\<close>

definition get_sub_element_text :: "element \<Rightarrow> string \<Rightarrow> pystr \<Rightarrow> error + pystr" where
  "get_sub_element_text element tag_path default_value =
     bind (find element tag_path (nsmap element))
       (\<lambda>sub_element. Inr (case sub_element of Some sub \<Rightarrow> text' sub | None \<Rightarrow> default_value))"

text \<open>
  The dict comprehension \<^verbatim>\<open>{label.get(lang): label.text for label in ...}\<close> that the
  three label columns are built with.
\<close>

definition lang_dict :: "element list \<Rightarrow> (pystr \<times> pystr) list" where
  "lang_dict labels =
     dict_of (map (\<lambda>label. (get label (xml_namespace @ ''lang''), text' label)) labels)"

subsection \<open>ConceptScheme.from\_xml\_element\<close>

text \<open>The keyword arguments are evaluated in the order they are written.\<close>

definition ConceptScheme_from_xml_element :: "element \<Rightarrow> error + ConceptScheme" where
  "ConceptScheme_from_xml_element element =
     bind (getitem (nsmap element) ''rdf'') (\<lambda>rdf.
     bind (get_sub_element_text element ''core:notation'' (Some [])) (\<lambda>notation_text.
     bind (get_sub_element_text element ''core:scopeNote'' (Some [])) (\<lambda>scopeNote_text.
     bind (findall element ''core:prefLabel'' (nsmap element)) (\<lambda>labels.
       Inr \<lparr>ConceptScheme.iri = get element (clark rdf ''about''),
            notation' = notation_text,
            scopeNote = scopeNote_text,
            prefLabels = lang_dict labels\<rparr>))))"

subsection \<open>Concept.from\_xml\_element\<close>

definition Concept_from_xml_element :: "element \<Rightarrow> ConceptScheme list \<Rightarrow> error + Concept" where
  "Concept_from_xml_element element concept_schemes_arg =
     bind (findall element ''core:inScheme'' (nsmap element)) (\<lambda>scheme_elements.
     bind (mapM (\<lambda>scheme_element.
             bind (getitem (nsmap element) ''rdf'') (\<lambda>rdf.
               Inr (get scheme_element (clark rdf ''resource'')))) scheme_elements) (\<lambda>scheme_iris.
     bind (getitem (nsmap element) ''rdf'') (\<lambda>rdf.
     bind (get_sub_element_text element ''x_1.1:identifier'' (Some [])) (\<lambda>identifier_text.
     bind (get_sub_element_text element ''core:notation'' (Some [])) (\<lambda>notation_text.
     bind (findall element ''core:prefLabel'' (nsmap element)) (\<lambda>pref.
     bind (findall element ''core:altLabel'' (nsmap element)) (\<lambda>alt.
     bind (findall element ''core:scopeNote'' (nsmap element)) (\<lambda>notes.
       Inr \<lparr>Concept_columns.iri = get element (clark rdf ''about''),
            identifier = identifier_text,
            notation' = notation_text,
            prefLabels = lang_dict pref,
            altLabels = lang_dict alt,
            scopeNotes = lang_dict notes,
            concept_schemes =
              filter (\<lambda>concept_scheme. ConceptScheme.iri concept_scheme \<in> set scheme_iris)
                concept_schemes_arg\<rparr>))))))))"

text \<open>
  A call of the class method by position. Python binds the arguments before it runs the
  body: a call that gives the element alone (\<open>None\<close> for the second argument) raises
  TypeError for the missing \<^verbatim>\<open>concept_schemes\<close>.
\<close>

definition call_Concept_from_xml_element ::
  "element \<Rightarrow> ConceptScheme list option \<Rightarrow> error + Concept" where
  "call_Concept_from_xml_element element concept_schemes_arg =
     (case concept_schemes_arg of
        None \<Rightarrow> Inl (TypeError
          (''Concept.from_xml_element() missing 1 required positional argument: '' @
           [CHR 0x27] @ ''concept_schemes'' @ [CHR 0x27]))
      | Some given \<Rightarrow> Concept_from_xml_element element given)"

subsection \<open>SemanticRelation.from\_xml\_element\<close>

text \<open>
  The nested comprehension: for each relation type in turn the element is searched for
  \<^verbatim>\<open>core:<type>\<close>, and each sub-element found gives one relation.
\<close>

definition SemanticRelation_from_xml_element :: "element \<Rightarrow> error + SemanticRelation list" where
  "SemanticRelation_from_xml_element element =
     bind (mapM (\<lambda>relation_type.
             bind (findall element (''core:'' @ value relation_type) (nsmap element)) (\<lambda>relations.
               mapM (\<lambda>relation.
                 bind (getitem (nsmap element) ''rdf'') (\<lambda>rdf_about.
                 bind (getitem (nsmap element) ''rdf'') (\<lambda>rdf_resource.
                   Inr \<lparr>type = relation_type,
                        source_concept_iri = get element (clark rdf_about ''about''),
                        target_concept_iri = get relation (clark rdf_resource ''resource'')\<rparr>)))
                 relations))
           SemanticRelationType_members)
       (\<lambda>per_type. Inr (concat per_type))"

subsection \<open>GlossaryController.parse\_dataset\<close>

text \<open>
  \<open>parse_xml\<close> is defusedxml's parser followed by \<^verbatim>\<open>getroot()\<close>: it gives the root
  element of the file at the path, or raises.
\<close>

definition parse_dataset ::
  "('p \<Rightarrow> error + element) \<Rightarrow> 'p \<Rightarrow>
   error + (ConceptScheme list \<times> Concept list \<times> SemanticRelation list)" where
  "parse_dataset parse_xml dataset_path =
     bind (parse_xml dataset_path) (\<lambda>root.
     bind (findall root ''core:ConceptScheme'' (nsmap root)) (\<lambda>concept_scheme_elements.
     bind (findall root ''core:Concept'' (nsmap root)) (\<lambda>concept_elements.
     bind (mapM ConceptScheme_from_xml_element concept_scheme_elements) (\<lambda>schemes.
     bind (mapM (\<lambda>concept_element. call_Concept_from_xml_element concept_element None)
             concept_elements) (\<lambda>concepts.
     bind (mapM SemanticRelation_from_xml_element concept_elements) (\<lambda>per_element.
       Inr (schemes, concepts, concat per_element)))))))"

section \<open>The database\<close>

text \<open>
  The four tables of \<^verbatim>\<open>Base.metadata\<close>. A row of \<^verbatim>\<open>concepts\<close> holds the columns of a
  concept; its memberships are the rows \<^verbatim>\<open>(scheme_iri, concept_iri)\<close> of \<^verbatim>\<open>in_scheme\<close>.
  The engine of the source is a handle on these tables, so the model passes the tables
  themselves and a function that writes returns the new ones.
\<close>

record database =
  concept_schemes_table :: "ConceptScheme list"
  concepts_table :: "Concept_columns list"
  semantic_relations_table :: "SemanticRelation list"
  in_scheme_table :: "(pystr \<times> pystr) list"

definition empty_database :: database where
  "empty_database = \<lparr>concept_schemes_table = [], concepts_table = [],
     semantic_relations_table = [], in_scheme_table = []\<rparr>"

datatype row =
    Row_concept_scheme ConceptScheme
  | Row_concept Concept_columns
  | Row_in_scheme pystr pystr
  | Row_semantic_relation SemanticRelation

text \<open>
  One INSERT. The database refuses a row that breaks a constraint the mapped classes
  declare: a column mapped as \<^verbatim>\<open>Mapped[str]\<close> is not nullable, a primary key is unique,
  a foreign key names a stored row. The wording of the error is the driver's.
\<close>

fun insert_row :: "database \<Rightarrow> row \<Rightarrow> error + database" where
  "insert_row db (Row_concept_scheme s) =
     (if ConceptScheme.iri s = None \<or> ConceptScheme.notation' s = None \<or> scopeNote s = None
      then Inl (IntegrityError ''null value in table concept_schemes'')
      else if ConceptScheme.iri s \<in> set (map ConceptScheme.iri (concept_schemes_table db))
      then Inl (IntegrityError ''duplicate key in table concept_schemes'')
      else Inr (db\<lparr>concept_schemes_table := concept_schemes_table db @ [s]\<rparr>))"
| "insert_row db (Row_concept c) =
     (if Concept_columns.iri c = None \<or> identifier c = None \<or> Concept_columns.notation' c = None
      then Inl (IntegrityError ''null value in table concepts'')
      else if Concept_columns.iri c \<in> set (map Concept_columns.iri (concepts_table db))
      then Inl (IntegrityError ''duplicate key in table concepts'')
      else Inr (db\<lparr>concepts_table := concepts_table db @ [c]\<rparr>))"
| "insert_row db (Row_in_scheme scheme_iri concept_iri) =
     (if scheme_iri = None \<or> concept_iri = None
      then Inl (IntegrityError ''null value in table in_scheme'')
      else if (scheme_iri, concept_iri) \<in> set (in_scheme_table db)
      then Inl (IntegrityError ''duplicate key in table in_scheme'')
      else if scheme_iri \<notin> set (map ConceptScheme.iri (concept_schemes_table db)) \<or>
              concept_iri \<notin> set (map Concept_columns.iri (concepts_table db))
      then Inl (IntegrityError ''foreign key violation in table in_scheme'')
      else Inr (db\<lparr>in_scheme_table := in_scheme_table db @ [(scheme_iri, concept_iri)]\<rparr>))"
| "insert_row db (Row_semantic_relation r) =
     (if source_concept_iri r = None \<or> target_concept_iri r = None
      then Inl (IntegrityError ''null value in table semantic_relations'')
      else if (source_concept_iri r, target_concept_iri r) \<in>
                set (map (\<lambda>r'. (source_concept_iri r', target_concept_iri r'))
                       (semantic_relations_table db))
      then Inl (IntegrityError ''duplicate key in table semantic_relations'')
      else if source_concept_iri r \<notin> set (map Concept_columns.iri (concepts_table db)) \<or>
              target_concept_iri r \<notin> set (map Concept_columns.iri (concepts_table db))
      then Inl (IntegrityError ''foreign key violation in table semantic_relations'')
      else Inr (db\<lparr>semantic_relations_table := semantic_relations_table db @ [r]\<rparr>))"

subsection \<open>Sessions\<close>

text \<open>
  A session on an engine: \<open>stored\<close> is what the database holds committed, \<open>connection\<close>
  is what the session's transaction sees, and \<open>new\<close> are the instances added and not yet
  flushed. \<open>commit\<close> flushes the pending instances as INSERTs inside the transaction and
  then makes the transaction's tables the stored ones; an INSERT that fails rolls the
  transaction back and raises. \<open>close\<close>, which leaving the \<^verbatim>\<open>with\<close> block calls on
  either way out, rolls back whatever is uncommitted.
\<close>

record session =
  stored :: database
  connection :: database
  new :: "Base list"

definition Session :: "database \<Rightarrow> session" where
  "Session engine = \<lparr>stored = engine, connection = engine, new = []\<rparr>"

definition add_all :: "session \<Rightarrow> Base list \<Rightarrow> session" where
  "add_all s instances = s\<lparr>new := new s @ instances\<rparr>"

definition pending_schemes :: "Base list \<Rightarrow> ConceptScheme list" where
  "pending_schemes objs = concat (map (\<lambda>obj. case obj of A_ConceptScheme s \<Rightarrow> [s] | _ \<Rightarrow> []) objs)"

definition pending_concepts :: "Base list \<Rightarrow> Concept list" where
  "pending_concepts objs = concat (map (\<lambda>obj. case obj of A_Concept c \<Rightarrow> [c] | _ \<Rightarrow> []) objs)"

definition pending_relations :: "Base list \<Rightarrow> SemanticRelation list" where
  "pending_relations objs =
     concat (map (\<lambda>obj. case obj of A_SemanticRelation r \<Rightarrow> [r] | _ \<Rightarrow> []) objs)"

text \<open>
  Adding a concept also adds the schemes of its relationship (the save-update cascade).
  \<open>Concept.from_xml_element\<close> takes them from the list of schemes it is given, so a
  scheme that is already pending is not added again.
\<close>

definition cascaded_schemes :: "Base list \<Rightarrow> ConceptScheme list" where
  "cascaded_schemes objs =
     remdups (filter (\<lambda>s. s \<notin> set (pending_schemes objs))
                (concat (map concept_schemes (pending_concepts objs))))"

text \<open>
  The INSERTs of a flush, parents before the rows that refer to them: schemes, concepts,
  memberships, relations.
\<close>

definition unit_of_work :: "Base list \<Rightarrow> row list" where
  "unit_of_work objs =
     map Row_concept_scheme (pending_schemes objs @ cascaded_schemes objs) @
     map (\<lambda>c. Row_concept (Concept_columns.truncate c)) (pending_concepts objs) @
     concat (map (\<lambda>c. map (\<lambda>s. Row_in_scheme (ConceptScheme.iri s) (Concept_columns.iri c))
                         (concept_schemes c))
               (pending_concepts objs)) @
     map Row_semantic_relation (pending_relations objs)"

fun execute :: "session \<Rightarrow> row list \<Rightarrow> session \<times> (error + unit)" where
  "execute s [] = (s, Inr ())"
| "execute s (r # rs) =
     (case insert_row (connection s) r of
        Inl e \<Rightarrow> (s, Inl e)
      | Inr db \<Rightarrow> execute (s\<lparr>connection := db\<rparr>) rs)"

definition rollback :: "session \<Rightarrow> session" where
  "rollback s = s\<lparr>connection := stored s\<rparr>"

definition commit :: "session \<Rightarrow> session \<times> (error + unit)" where
  "commit s =
     (case execute s (unit_of_work (new s)) of
        (s', Inl e) \<Rightarrow> (rollback s', Inl e)
      | (s', Inr _) \<Rightarrow> (s'\<lparr>stored := connection s', new := []\<rparr>, Inr ()))"

definition close :: "session \<Rightarrow> session" where
  "close s = (rollback s)\<lparr>new := []\<rparr>"

subsection \<open>save\_dataset\<close>

text \<open>Returns the tables the database holds afterwards and whether the call raised.\<close>

definition save_dataset ::
  "database \<Rightarrow> ConceptScheme list \<Rightarrow> Concept list \<Rightarrow> SemanticRelation list \<Rightarrow>
   database \<times> (error + unit)" where
  "save_dataset engine schemes concepts semantic_relations =
     (let session = Session engine;
          session = add_all session (map A_ConceptScheme schemes);
          session = add_all session (map A_Concept concepts);
          session = add_all session (map A_SemanticRelation semantic_relations);
          (session, outcome) = commit session
      in (stored (close session), outcome))"

subsection \<open>Queries\<close>

definition get_concept_schemes :: "database \<Rightarrow> ConceptScheme list" where
  "get_concept_schemes engine = concept_schemes_table engine"

text \<open>
  Reading an attribute of the class \<^verbatim>\<open>Concept\<close> for a filter: each mapped column gives
  the reader of that column; a name the class does not define raises AttributeError.
\<close>

datatype cell = Str pystr | Json "(pystr \<times> pystr) list"

definition Concept_getattr :: "string \<Rightarrow> error + (Concept_columns \<Rightarrow> cell)" where
  "Concept_getattr name =
     (if name = ''iri'' then Inr (\<lambda>c. Str (Concept_columns.iri c))
      else if name = ''identifier'' then Inr (\<lambda>c. Str (identifier c))
      else if name = ''notation'' then Inr (\<lambda>c. Str (Concept_columns.notation' c))
      else if name = ''prefLabels'' then Inr (\<lambda>c. Json (Concept_columns.prefLabels c))
      else if name = ''altLabels'' then Inr (\<lambda>c. Json (altLabels c))
      else if name = ''scopeNotes'' then Inr (\<lambda>c. Json (scopeNotes c))
      else Inl (AttributeError
        (''type object '' @ [CHR 0x27] @ ''Concept'' @ [CHR 0x27] @ '' has no attribute '' @
         [CHR 0x27] @ name @ [CHR 0x27])))"

definition get_concepts :: "database \<Rightarrow> string \<Rightarrow> error + Concept_columns list" where
  "get_concepts engine concept_scheme_iri =
     bind (Concept_getattr ''scheme_iri'') (\<lambda>scheme_iri.
       Inr (filter (\<lambda>c. scheme_iri c = Str (Some concept_scheme_iri)) (concepts_table engine)))"

text \<open>\<^verbatim>\<open>Query.one_or_none\<close>: no row gives None, one row gives it, more rows raise.\<close>

definition one_or_none :: "'a list \<Rightarrow> error + 'a option" where
  "one_or_none found =
     (case found of
        [] \<Rightarrow> Inr None
      | [x] \<Rightarrow> Inr (Some x)
      | _ \<Rightarrow> Inl (MultipleResultsFound ''Multiple rows were found when one or none was required''))"

definition get_concept :: "database \<Rightarrow> string \<Rightarrow> error + Concept_columns option" where
  "get_concept engine concept_iri =
     one_or_none (filter (\<lambda>c. Concept_columns.iri c = Some concept_iri) (concepts_table engine))"

definition get_relations :: "database \<Rightarrow> string \<Rightarrow> SemanticRelation list" where
  "get_relations engine concept_iri =
     filter (\<lambda>r. source_concept_iri r = Some concept_iri \<or> target_concept_iri r = Some concept_iri)
       (semantic_relations_table engine)"

section \<open>Ingestion\<close>

subsection \<open>init\_engine\<close>

text \<open>
  \<open>getenv\<close> is the process environment and \<open>server\<close> the database the URL names, None
  when it does not exist yet. With the drop flag all tables are dropped and created
  again; a database that had to be created has empty tables.
\<close>

definition init_engine ::
  "string option \<Rightarrow> bool \<Rightarrow> (string \<Rightarrow> string option) \<Rightarrow> database option \<Rightarrow> error + database" where
  "init_engine database_url drop_database_flag getenv server =
     (let database_url = (case database_url of None \<Rightarrow> getenv ''DATABASE_URL'' | Some url \<Rightarrow> Some url)
      in if database_url = None \<or> database_url = Some []
         then Inl (ValueError ''DATABASE_URL environment variable is not set.'')
         else Inr (case server of
                     None \<Rightarrow> empty_database
                   | Some db \<Rightarrow> if drop_database_flag then empty_database else db))"

subsection \<open>GlossaryController.\_\_init\_\_\<close>


subsection \<open>GlossaryController.init\_datasets\<close>

text \<open>
  The libraries that reach outside the program are parameters. \<open>'w\<close> is the state of the
  world they act on (the network, owlready2's cache, the files of the data directory):
  \<open>load\<close> is \<^verbatim>\<open>get_ontology(url).load(reload=reload)\<close>, \<open>save\<close> is
  \<^verbatim>\<open>ontology.save(file=path, format="rdfxml")\<close> and \<open>parse_xml\<close> reads the file at a
  path. Each of them may raise.
\<close>

record ('o, 'w) libraries =
  load :: "string \<Rightarrow> bool \<Rightarrow> 'w \<Rightarrow> 'w \<times> (error + 'o)"
  save :: "'o \<Rightarrow> string \<Rightarrow> 'w \<Rightarrow> 'w \<times> (error + unit)"
  parse_xml :: "'w \<Rightarrow> string \<Rightarrow> error + element"

definition base_url :: string where
  "base_url = ''http://publications.europa.eu/resource/distribution/''"

definition datasets :: "(string \<times> string) list" where
  "datasets =
     [(''ESTAT-CN2024.rdf'',
       base_url @ ''combined-nomenclature-2024/20240425-0/rdf/skos_core/ESTAT-CN2024.rdf''),
      (''ESTAT-LoW2015.rdf'', base_url @ ''low2015/20240425-0/rdf/skos_core/ESTAT-LoW2015.rdf''),
      (''ESTAT-NACE2.1.rdf'', base_url @ ''nace2.1/20240425-0/rdf/skos_core/ESTAT-NACE2.1.rdf''),
      (''ESTAT-ICST-COM.rdf'', base_url @ ''icst-com/20240425-0/rdf/skos_core/ESTAT-ICST-COM.rdf''),
      (''ESTAT-PRODCOM2023.rdf'',
       base_url @ ''prodcom2023/20240425-0/rdf/skos_core/ESTAT-PRODCOM2023.rdf'')]"

type_synonym batch = "ConceptScheme list \<times> Concept list \<times> SemanticRelation list"

text \<open>
  The body of the \<^verbatim>\<open>try\<close> block in two parts: \<open>fetch\<close> downloads, writes and parses
  one dataset, and \<open>try_dataset\<close> saves what was parsed. The state is the world together
  with the engine.
\<close>

definition fetch ::
  "('o, 'w) libraries \<Rightarrow> bool \<Rightarrow> 'w \<Rightarrow> string \<Rightarrow> string \<Rightarrow> 'w \<times> (error + batch)" where
  "fetch libs reload w dataset_url dataset_path =
     (case load libs dataset_url reload w of
        (w, Inl e) \<Rightarrow> (w, Inl e)
      | (w, Inr ontology) \<Rightarrow>
          (case save libs ontology dataset_path w of
             (w, Inl e) \<Rightarrow> (w, Inl e)
           | (w, Inr _) \<Rightarrow> (w, parse_dataset (parse_xml libs w) dataset_path)))"

definition try_dataset ::
  "('o, 'w) libraries \<Rightarrow> bool \<Rightarrow> 'w \<times> database \<Rightarrow> string \<Rightarrow> string \<Rightarrow>
   ('w \<times> database) \<times> (error + unit)" where
  "try_dataset libs reload state dataset_url dataset_path =
     (case state of (w, engine) \<Rightarrow>
        (case fetch libs reload w dataset_url dataset_path of
           (w, Inl e) \<Rightarrow> ((w, engine), Inl e)
         | (w, Inr (schemes, concepts, semantic_relations)) \<Rightarrow>
             (case save_dataset engine schemes concepts semantic_relations of
                (engine, outcome) \<Rightarrow> ((w, engine), outcome))))"

type_synonym report = "(string \<times> string) list list"

definition saved_entry :: "string \<Rightarrow> string \<Rightarrow> (string \<times> string) list" where
  "saved_entry dataset_file dataset_url = [(''dataset'', dataset_file), (''dataset_url'', dataset_url)]"

definition failed_entry :: "string \<Rightarrow> string \<Rightarrow> error \<Rightarrow> (string \<times> string) list" where
  "failed_entry dataset_file dataset_url e =
     [(''dataset'', dataset_file), (''dataset_url'', dataset_url), (''error'', str e)]"

text \<open>One turn of the loop over \<^verbatim>\<open>self.datasets.items()\<close>.\<close>

definition loop_body ::
  "('o, 'w) libraries \<Rightarrow> bool \<Rightarrow> string \<Rightarrow> ('w \<times> database) \<times> report \<times> report \<Rightarrow>
   string \<times> string \<Rightarrow> ('w \<times> database) \<times> report \<times> report" where
  "loop_body libs reload data_dir acc item =
     (case (acc, item) of ((state, saved_datasets, failed_datasets), (dataset_file, dataset_url)) \<Rightarrow>
        (let dataset_path = data_dir @ ''/'' @ dataset_file
         in case try_dataset libs reload state dataset_url dataset_path of
              (state, Inr _) \<Rightarrow>
                (state, saved_datasets @ [saved_entry dataset_file dataset_url], failed_datasets)
            | (state, Inl e) \<Rightarrow>
                (state, saved_datasets, failed_datasets @ [failed_entry dataset_file dataset_url e])))"

text \<open>
  \<open>items\<close> are the entries of \<^verbatim>\<open>self.datasets\<close> in order; the class sets them to
  \<open>datasets\<close>. The result is the final state together with the two lists returned.
\<close>

definition init_datasets ::
  "('o, 'w) libraries \<Rightarrow> (string \<Rightarrow> string option) \<Rightarrow> string \<Rightarrow> (string \<times> string) list \<Rightarrow>
   bool \<Rightarrow> 'w \<Rightarrow> database option \<Rightarrow> error + (('w \<times> database) \<times> report \<times> report)" where
  "init_datasets libs getenv data_dir items reload w server =
     bind (init_engine None True getenv server) (\<lambda>engine.
       Inr (foldl (loop_body libs reload data_dir) ((w, engine), [], []) items))"

section \<open>Notions of the specification\<close>

text \<open>A value that is a string rather than None, and a dict all of whose values are.\<close>

definition is_str :: "pystr \<Rightarrow> bool" where
  "is_str v = (v \<noteq> None)"

definition str_valued :: "('k \<times> pystr) list \<Rightarrow> bool" where
  "str_valued d = list_all (\<lambda>(k, v). is_str v) d"

text \<open>
  The relation a sub-element stands for, if its tag is one of the five relation tags of
  the namespace \<open>core\<close>: typed by the tag, from the element's \<^verbatim>\<open>rdf:about\<close> to the
  sub-element's \<^verbatim>\<open>rdf:resource\<close>.
\<close>

definition relation_tags :: "string \<Rightarrow> string list" where
  "relation_tags core = map (\<lambda>relation_type. clark core (value relation_type)) SemanticRelationType_members"

definition relation_of :: "element \<Rightarrow> string \<Rightarrow> string \<Rightarrow> element \<Rightarrow> SemanticRelation option" where
  "relation_of element core rdf child =
     map_option
       (\<lambda>relation_type.
          \<lparr>type = relation_type,
           source_concept_iri = get element (clark rdf ''about''),
           target_concept_iri = get child (clark rdf ''resource'')\<rparr>)
       (List.find (\<lambda>relation_type. tag child = clark core (value relation_type))
          SemanticRelationType_members)"

text \<open>All records of a batch are in the tables.\<close>

definition persisted :: "database \<Rightarrow> batch \<Rightarrow> bool" where
  "persisted db b =
     (case b of (schemes, concepts, semantic_relations) \<Rightarrow>
        set schemes \<subseteq> set (concept_schemes_table db) \<and>
        set (map Concept_columns.truncate concepts) \<subseteq> set (concepts_table db) \<and>
        (\<forall>c \<in> set concepts. \<forall>s \<in> set (concept_schemes c).
           s \<in> set (concept_schemes_table db) \<and>
           (ConceptScheme.iri s, Concept_columns.iri c) \<in> set (in_scheme_table db)) \<and>
        set semantic_relations \<subseteq> set (semantic_relations_table db))"


text \<open>
  The rows of each table among a list of INSERTs, the tables with these rows added at
  the end, and the INSERTs of one batch.
\<close>

definition scheme_rows :: "row list \<Rightarrow> ConceptScheme list" where
  "scheme_rows rows = concat (map (\<lambda>r. case r of Row_concept_scheme s \<Rightarrow> [s] | _ \<Rightarrow> []) rows)"

definition concept_rows :: "row list \<Rightarrow> Concept_columns list" where
  "concept_rows rows = concat (map (\<lambda>r. case r of Row_concept c \<Rightarrow> [c] | _ \<Rightarrow> []) rows)"

definition in_scheme_rows :: "row list \<Rightarrow> (pystr \<times> pystr) list" where
  "in_scheme_rows rows = concat (map (\<lambda>r. case r of Row_in_scheme s c \<Rightarrow> [(s, c)] | _ \<Rightarrow> []) rows)"

definition relation_rows :: "row list \<Rightarrow> SemanticRelation list" where
  "relation_rows rows = concat (map (\<lambda>r. case r of Row_semantic_relation x \<Rightarrow> [x] | _ \<Rightarrow> []) rows)"

definition with_rows :: "database \<Rightarrow> row list \<Rightarrow> database" where
  "with_rows db rows =
     \<lparr>concept_schemes_table = concept_schemes_table db @ scheme_rows rows,
      concepts_table = concepts_table db @ concept_rows rows,
      semantic_relations_table = semantic_relations_table db @ relation_rows rows,
      in_scheme_table = in_scheme_table db @ in_scheme_rows rows\<rparr>"

definition batch_rows :: "batch \<Rightarrow> row list" where
  "batch_rows b = (case b of (schemes, concepts, semantic_relations) \<Rightarrow>
     unit_of_work (map A_ConceptScheme schemes @ map A_Concept concepts @
                   map A_SemanticRelation semantic_relations))"

text \<open>
  The concepts that belong to the scheme with an IRI: those with a membership row
  \<^verbatim>\<open>(scheme_iri, concept_iri)\<close> in \<^verbatim>\<open>in_scheme\<close>.
\<close>

definition concepts_in_scheme :: "database \<Rightarrow> string \<Rightarrow> Concept_columns list" where
  "concepts_in_scheme engine concept_scheme_iri =
     filter (\<lambda>c. (Some concept_scheme_iri, Concept_columns.iri c) \<in> set (in_scheme_table engine))
       (concepts_table engine)"


section \<open>Example data\<close>

definition scheme_en_fr :: "string \<Rightarrow> ConceptScheme" where
  "scheme_en_fr fr = \<lparr>ConceptScheme.iri = Some ''http://data.europa.eu/xsp/cn2024/cn2024'',
     notation' = Some ''CN2024'', scopeNote = Some [],
     prefLabels = [(Some ''en'', Some ''Combined Nomenclature''), (Some ''fr'', Some fr)]\<rparr>"

definition skos :: "(string \<times> string) list" where
  "skos = [(''core'', ''http://www.w3.org/2004/02/skos/core#''),
           (''rdf'', ''http://www.w3.org/1999/02/22-rdf-syntax-ns#''),
           (''x_1.1'', ''http://purl.org/dc/elements/1.1/'')]"

definition leaf :: "string \<Rightarrow> string \<Rightarrow> string \<Rightarrow> element" where
  "leaf local attr v = Element (clark ''http://www.w3.org/2004/02/skos/core#'' local)
     [(clark ''http://www.w3.org/1999/02/22-rdf-syntax-ns#'' attr, v)] skos None []"

definition concept_el :: element where
  "concept_el = Element (clark ''http://www.w3.org/2004/02/skos/core#'' ''Concept'')
     [(clark ''http://www.w3.org/1999/02/22-rdf-syntax-ns#'' ''about'', ''urn:c1'')] skos None
     [leaf ''inScheme'' ''resource'' ''urn:s1'',
      leaf ''related'' ''resource'' ''urn:c3'',
      leaf ''broader'' ''resource'' ''urn:c2'']"

definition live_horses :: Concept where
  "live_horses = \<lparr>Concept_columns.iri = Some ''http://data.europa.eu/xsp/cn2024/010100000080'',
     identifier = Some ''010100000080'', notation' = Some ''0101'',
     prefLabels = [(Some ''en'', Some ''Live horses, asses, mules and hinnies'')],
     altLabels = [(Some ''fr'', Some ''Chevaux'')], scopeNotes = [],
     concept_schemes = [scheme_en_fr ''NC'']\<rparr>"

definition horses_broader :: SemanticRelation where
  "horses_broader = \<lparr>type = BROADER,
     source_concept_iri = Some ''http://data.europa.eu/xsp/cn2024/010100000080'',
     target_concept_iri = Some ''http://data.europa.eu/xsp/cn2024/010011000090''\<rparr>"

definition concept_row :: "string \<Rightarrow> string \<Rightarrow> Concept_columns" where
  "concept_row i label = \<lparr>Concept_columns.iri = Some i, identifier = Some i, notation' = Some i,
     prefLabels = [(Some ''en'', Some label)], altLabels = [], scopeNotes = []\<rparr>"

definition cn_db :: database where
  "cn_db = \<lparr>concept_schemes_table = [scheme_en_fr ''NC''],
     concepts_table = [concept_row ''urn:animals'' ''Live animals'',
                       concept_row ''urn:horses'' ''Live horses'',
                       concept_row ''urn:fish'' ''Fish''],
     semantic_relations_table =
       [\<lparr>type = BROADER, source_concept_iri = Some ''urn:horses'', target_concept_iri = Some ''urn:animals''\<rparr>,
        \<lparr>type = NARROWER, source_concept_iri = Some ''urn:animals'', target_concept_iri = Some ''urn:fish''\<rparr>,
        \<lparr>type = NARROWER, source_concept_iri = Some ''urn:animals'', target_concept_iri = Some ''urn:horses''\<rparr>],
     in_scheme_table =
       [(Some ''http://data.europa.eu/xsp/cn2024/cn2024'', Some ''urn:animals''),
        (Some ''http://data.europa.eu/xsp/cn2024/cn2024'', Some ''urn:horses''),
        (Some ''http://data.europa.eu/xsp/cn2024/cn2024'', Some ''urn:fish'')]\<rparr>"

definition scheme_el :: element where
  "scheme_el = Element (clark ''http://www.w3.org/2004/02/skos/core#'' ''ConceptScheme'')
     [(clark ''http://www.w3.org/1999/02/22-rdf-syntax-ns#'' ''about'', ''urn:s1'')] skos None
     [Element (clark ''http://www.w3.org/2004/02/skos/core#'' ''notation'') [] skos (Some ''S1'') [],
      Element (clark ''http://www.w3.org/2004/02/skos/core#'' ''prefLabel'')
        [(xml_namespace @ ''lang'', ''en'')] skos (Some ''Scheme one'') []]"

definition scheme_s1 :: ConceptScheme where
  "scheme_s1 = \<lparr>ConceptScheme.iri = Some ''urn:s1'', notation' = Some ''S1'', scopeNote = Some [],
     prefLabels = [(Some ''en'', Some ''Scheme one'')]\<rparr>"

definition rdf_document :: "element list \<Rightarrow> element" where
  "rdf_document elements =
     Element (clark ''http://www.w3.org/1999/02/22-rdf-syntax-ns#'' ''RDF'') [] skos None elements"





text \<open>
  A scheme element with no \<^verbatim>\<open>rdf:about\<close> attribute and an empty English label,
  \<^verbatim>\<open><core:prefLabel xml:lang="en"/>\<close>, and the record that is read from it.
\<close>

definition unnamed_scheme_el :: element where
  "unnamed_scheme_el = Element (clark ''http://www.w3.org/2004/02/skos/core#'' ''ConceptScheme'')
     [] skos None
     [Element (clark ''http://www.w3.org/2004/02/skos/core#'' ''notation'') [] skos (Some ''S1'') [],
      Element (clark ''http://www.w3.org/2004/02/skos/core#'' ''prefLabel'')
        [(xml_namespace @ ''lang'', ''en'')] skos None []]"

definition unnamed_scheme :: ConceptScheme where
  "unnamed_scheme = \<lparr>ConceptScheme.iri = None, notation' = Some ''S1'', scopeNote = Some [],
     prefLabels = [(Some ''en'', None)]\<rparr>"

section \<open>Lemmas on errors and dictionaries\<close>

lemma bind_Inr [simp]: "bind (Inr x) f = f x"
  by (simp add: bind_def)

lemma bind_Inl [simp]: "bind (Inl e) f = Inl e"
  by (simp add: bind_def)

lemma mapM_Inr: "(\<And>x. x \<in> set xs \<Longrightarrow> f x = Inr (g x)) \<Longrightarrow> mapM f xs = Inr (map g xs)"
  by (induction xs) simp_all

lemma dict_eq_map_of:
  assumes "distinct (map fst d1)" "distinct (map fst d2)"
  shows "dict_eq d1 d2 \<longleftrightarrow> map_of d1 = map_of d2"
proof
  assume eq: "map_of d1 = map_of d2"
  have "length d1 = length d2"
    using assms eq by (metis distinct_card dom_map_of_conv_image_fst length_map set_map)
  moreover have "list_all (\<lambda>(k, v). map_of d2 k = Some v) d1"
    using assms eq[symmetric] by (auto simp: list_all_iff)
  ultimately show "dict_eq d1 d2" by (simp add: dict_eq_def)
next
  assume de: "dict_eq d1 d2"
  then have len: "length d1 = length d2" and sub: "\<forall>(k, v) \<in> set d1. map_of d2 k = Some v"
    by (auto simp: dict_eq_def list_all_iff)
  have "set d1 \<subseteq> set d2" using sub by (auto dest: map_of_SomeD)
  then have "fst ` set d1 \<subseteq> fst ` set d2" by auto
  moreover have "card (fst ` set d1) = card (fst ` set d2)"
    using assms len by (metis distinct_card length_map set_map)
  ultimately have keys: "fst ` set d1 = fst ` set d2"
    by (simp add: card_subset_eq)
  show "map_of d1 = map_of d2"
  proof
    fix k
    show "map_of d1 k = map_of d2 k"
    proof (cases "map_of d1 k")
      case None
      then have "k \<notin> fst ` set d1" by (simp add: map_of_eq_None_iff)
      then have "k \<notin> fst ` set d2" using keys by simp
      then show ?thesis using None by (metis map_of_eq_None_iff)
    next
      case (Some v)
      then have "(k, v) \<in> set d1" by (rule map_of_SomeD)
      then show ?thesis using sub Some by auto
    qed
  qed
qed

section \<open>Localised labels\<close>

text \<open>
  Claim C3. For every label mapping and every requested language code,
  \<open>get_in_language\<close> returns the entry of the requested language if the mapping has
  one; otherwise the entry of \<^verbatim>\<open>"en"\<close> if the mapping has one; otherwise the empty
  string. The function has no failing branch: it gives a value for every mapping and
  every language.
\<close>

theorem get_in_language_fallback:
  "(\<forall>v. map_of attribute (Some lang) = Some v \<longrightarrow> get_in_language attribute lang = v) \<and>
   (\<forall>v. map_of attribute (Some lang) = None \<and> map_of attribute (Some ''en'') = Some v
        \<longrightarrow> get_in_language attribute lang = v) \<and>
   (map_of attribute (Some lang) = None \<and> map_of attribute (Some ''en'') = None
        \<longrightarrow> get_in_language attribute lang = Some '''')"
  by (simp add: get_in_language_def dict_get_def)

theorem get_in_language_fallback_witness:
  "get_in_language [(Some ''en'', Some ''Food''), (Some ''fr'', Some ''Aliments'')] ''fr'' = Some ''Aliments'' \<and>
   get_in_language [(Some ''en'', Some ''Food''), (Some ''fr'', Some ''Aliments'')] ''de'' = Some ''Food'' \<and>
   get_in_language [(Some ''fr'', Some ''Aliments'')] ''de'' = Some ''''"
  using get_in_language_fallback [of "[(Some ''en'', Some ''Food''), (Some ''fr'', Some ''Aliments'')]" "''fr''"]
    get_in_language_fallback [of "[(Some ''en'', Some ''Food''), (Some ''fr'', Some ''Aliments'')]" "''de''"]
    get_in_language_fallback [of "[(Some ''fr'', Some ''Aliments'')]" "''de''"]
  by simp

lemma get_in_language_str:
  "str_valued attribute \<Longrightarrow> is_str (get_in_language attribute lang)"
  by (auto simp: get_in_language_def dict_get_def list_all_iff str_valued_def is_str_def
      split: option.splits dest!: map_of_SomeD)

section \<open>Serialisation\<close>

lemma to_dict_distinct_keys: "distinct (map fst (to_dict x))"
  by (cases x) (simp_all add: ConceptScheme_to_dict_def Concept_to_dict_def SemanticRelation_to_dict_def)

lemma ConceptScheme_to_dict_eq:
  "dict_eq (ConceptScheme_to_dict a l) (ConceptScheme_to_dict b l) \<longleftrightarrow>
     ConceptScheme.iri a = ConceptScheme.iri b \<and>
     ConceptScheme.notation' a = ConceptScheme.notation' b \<and>
     scopeNote a = scopeNote b \<and>
     get_in_language (ConceptScheme.prefLabels a) l = get_in_language (ConceptScheme.prefLabels b) l"
  by (auto simp: dict_eq_def ConceptScheme_to_dict_def)

lemma Concept_to_dict_eq:
  "dict_eq (Concept_to_dict a l) (Concept_to_dict b l) \<longleftrightarrow>
     Concept_columns.iri a = Concept_columns.iri b \<and>
     identifier a = identifier b \<and>
     Concept_columns.notation' a = Concept_columns.notation' b \<and>
     get_in_language (Concept_columns.prefLabels a) l = get_in_language (Concept_columns.prefLabels b) l \<and>
     get_in_language (altLabels a) l = get_in_language (altLabels b) l \<and>
     get_in_language (scopeNotes a) l = get_in_language (scopeNotes b) l"
  by (auto simp: dict_eq_def Concept_to_dict_def)

text \<open>
  Claim C9, amended. For every scheme, concept and relation and every language code, the
  dictionary \<open>to_dict\<close> returns has exactly the keys iri, notation, scopeNote, prefLabel
  (schemes), iri, identifier, notation, prefLabel, altLabel, scopeNote (concepts) and
  type, source\_concept\_iri, target\_concept\_iri (relations); the value under each key is
  the record's field of that name, the label fields localised to the language by
  \<open>get_in_language\<close> and the type given by its tag. \<open>to_dict\<close> passes the fields on as
  they are: the values are strings whenever the record's fields hold strings, as the
  columns declare, and the dictionary is string-valued exactly when the fields that are
  not labels and the localised labels are strings. A field that holds None comes out as
  None.
\<close>

theorem to_dict_fields:
  "map fst (ConceptScheme_to_dict s lang) = [''iri'', ''notation'', ''scopeNote'', ''prefLabel''] \<and>
   map_of (ConceptScheme_to_dict s lang) ''iri'' = Some (ConceptScheme.iri s) \<and>
   map_of (ConceptScheme_to_dict s lang) ''notation'' = Some (ConceptScheme.notation' s) \<and>
   map_of (ConceptScheme_to_dict s lang) ''scopeNote'' = Some (scopeNote s) \<and>
   map_of (ConceptScheme_to_dict s lang) ''prefLabel'' =
     Some (get_in_language (ConceptScheme.prefLabels s) lang) \<and>
   map fst (Concept_to_dict c lang) =
     [''iri'', ''identifier'', ''notation'', ''prefLabel'', ''altLabel'', ''scopeNote''] \<and>
   map_of (Concept_to_dict c lang) ''iri'' = Some (Concept_columns.iri c) \<and>
   map_of (Concept_to_dict c lang) ''identifier'' = Some (identifier c) \<and>
   map_of (Concept_to_dict c lang) ''notation'' = Some (Concept_columns.notation' c) \<and>
   map_of (Concept_to_dict c lang) ''prefLabel'' =
     Some (get_in_language (Concept_columns.prefLabels c) lang) \<and>
   map_of (Concept_to_dict c lang) ''altLabel'' = Some (get_in_language (altLabels c) lang) \<and>
   map_of (Concept_to_dict c lang) ''scopeNote'' = Some (get_in_language (scopeNotes c) lang) \<and>
   map fst (SemanticRelation_to_dict r) = [''type'', ''source_concept_iri'', ''target_concept_iri''] \<and>
   map_of (SemanticRelation_to_dict r) ''type'' = Some (Some (value (type r))) \<and>
   map_of (SemanticRelation_to_dict r) ''source_concept_iri'' = Some (source_concept_iri r) \<and>
   map_of (SemanticRelation_to_dict r) ''target_concept_iri'' = Some (target_concept_iri r) \<and>
   (is_str (ConceptScheme.iri s) \<and> is_str (ConceptScheme.notation' s) \<and> is_str (scopeNote s) \<and>
      str_valued (ConceptScheme.prefLabels s)
      \<longrightarrow> str_valued (ConceptScheme_to_dict s lang)) \<and>
   (is_str (Concept_columns.iri c) \<and> is_str (identifier c) \<and> is_str (Concept_columns.notation' c) \<and>
      str_valued (Concept_columns.prefLabels c) \<and> str_valued (altLabels c) \<and>
      str_valued (scopeNotes c)
      \<longrightarrow> str_valued (Concept_to_dict c lang)) \<and>
   (is_str (source_concept_iri r) \<and> is_str (target_concept_iri r)
      \<longrightarrow> str_valued (SemanticRelation_to_dict r)) \<and>
   (str_valued (ConceptScheme_to_dict s lang) \<longleftrightarrow>
      is_str (ConceptScheme.iri s) \<and> is_str (ConceptScheme.notation' s) \<and> is_str (scopeNote s) \<and>
      is_str (get_in_language (ConceptScheme.prefLabels s) lang)) \<and>
   (str_valued (Concept_to_dict c lang) \<longleftrightarrow>
      is_str (Concept_columns.iri c) \<and> is_str (identifier c) \<and> is_str (Concept_columns.notation' c) \<and>
      is_str (get_in_language (Concept_columns.prefLabels c) lang) \<and>
      is_str (get_in_language (altLabels c) lang) \<and>
      is_str (get_in_language (scopeNotes c) lang)) \<and>
   (str_valued (SemanticRelation_to_dict r) \<longleftrightarrow>
      is_str (source_concept_iri r) \<and> is_str (target_concept_iri r))"
  by (simp add: ConceptScheme_to_dict_def Concept_to_dict_def SemanticRelation_to_dict_def
      get_in_language_str str_valued_def [of "_ # _"] str_valued_def [of "[]"]
      is_str_def [of "Some _"])

theorem to_dict_fields_witness:
  "ConceptScheme_to_dict (scheme_en_fr ''NC'') ''fr'' =
     [(''iri'', Some ''http://data.europa.eu/xsp/cn2024/cn2024''), (''notation'', Some ''CN2024''),
      (''scopeNote'', Some []), (''prefLabel'', Some ''NC'')] \<and>
   str_valued (ConceptScheme_to_dict (scheme_en_fr ''NC'') ''fr'') \<and>
   map_of (Concept_to_dict live_horses ''fr'') ''prefLabel'' =
     Some (Some ''Live horses, asses, mules and hinnies'') \<and>
   map_of (Concept_to_dict live_horses ''fr'') ''altLabel'' = Some (Some ''Chevaux'') \<and>
   map_of (Concept_to_dict live_horses ''fr'') ''scopeNote'' = Some (Some []) \<and>
   str_valued (Concept_to_dict live_horses ''fr'') \<and>
   map_of (SemanticRelation_to_dict horses_broader) ''type'' = Some (Some ''broader'') \<and>
   str_valued (SemanticRelation_to_dict horses_broader)"
proof -
  have fields: "is_str (ConceptScheme.iri (scheme_en_fr ''NC''))"
    "is_str (ConceptScheme.notation' (scheme_en_fr ''NC''))"
    "is_str (scopeNote (scheme_en_fr ''NC''))"
    "str_valued (ConceptScheme.prefLabels (scheme_en_fr ''NC''))"
    "is_str (Concept_columns.iri live_horses)" "is_str (identifier live_horses)"
    "is_str (Concept_columns.notation' live_horses)"
    "str_valued (Concept_columns.prefLabels live_horses)" "str_valued (altLabels live_horses)"
    "str_valued (scopeNotes live_horses)"
    "is_str (source_concept_iri horses_broader)" "is_str (target_concept_iri horses_broader)"
    by (simp_all add: scheme_en_fr_def live_horses_def horses_broader_def is_str_def str_valued_def)
  have labels: "get_in_language (ConceptScheme.prefLabels (scheme_en_fr ''NC'')) ''fr'' = Some ''NC''"
    "get_in_language (Concept_columns.prefLabels live_horses) ''fr'' =
       Some ''Live horses, asses, mules and hinnies''"
    "get_in_language (altLabels live_horses) ''fr'' = Some ''Chevaux''"
    "get_in_language (scopeNotes live_horses) ''fr'' = Some []"
    by (simp_all add: scheme_en_fr_def live_horses_def get_in_language_def dict_get_def)
  have scheme: "ConceptScheme_to_dict (scheme_en_fr ''NC'') ''fr'' =
     [(''iri'', Some ''http://data.europa.eu/xsp/cn2024/cn2024''), (''notation'', Some ''CN2024''),
      (''scopeNote'', Some []), (''prefLabel'', Some ''NC'')]"
    unfolding ConceptScheme_to_dict_def labels by (simp add: scheme_en_fr_def)
  have rel: "value (type horses_broader) = ''broader''"
    by (simp add: horses_broader_def)
  note t = to_dict_fields [of "scheme_en_fr ''NC''" "''fr''" live_horses horses_broader]
  have sv: "str_valued (ConceptScheme_to_dict (scheme_en_fr ''NC'') ''fr'')"
    "str_valued (Concept_to_dict live_horses ''fr'')"
    "str_valued (SemanticRelation_to_dict horses_broader)"
    using t fields by simp_all
  have vals: "map_of (Concept_to_dict live_horses ''fr'') ''prefLabel'' =
      Some (Some ''Live horses, asses, mules and hinnies'')"
    "map_of (Concept_to_dict live_horses ''fr'') ''altLabel'' = Some (Some ''Chevaux'')"
    "map_of (Concept_to_dict live_horses ''fr'') ''scopeNote'' = Some (Some [])"
    "map_of (SemanticRelation_to_dict horses_broader) ''type'' = Some (Some ''broader'')"
    using t labels rel by simp_all
  show ?thesis
    using scheme sv vals by simp
qed

text \<open>
  The statement of C9 without the condition on the fields fails. A scheme element
  with no \<^verbatim>\<open>rdf:about\<close> and an empty English label is read as a record whose IRI and
  English label are None, because \<^verbatim>\<open>element.get\<close> and \<^verbatim>\<open>label.text\<close> give None there,
  and \<open>to_dict\<close> returns None under \<^verbatim>\<open>iri\<close> and \<^verbatim>\<open>prefLabel\<close>: a dictionary that is not
  string-valued.
\<close>

theorem to_dict_field_not_string:
  "ConceptScheme_from_xml_element unnamed_scheme_el = Inr unnamed_scheme \<and>
   ConceptScheme_to_dict unnamed_scheme ''en'' =
     [(''iri'', None), (''notation'', Some ''S1''), (''scopeNote'', Some []), (''prefLabel'', None)] \<and>
   \<not> str_valued (ConceptScheme_to_dict unnamed_scheme ''en'')"
proof -
  have parsed: "ConceptScheme_from_xml_element unnamed_scheme_el = Inr unnamed_scheme"
    by (simp add: ConceptScheme_from_xml_element_def unnamed_scheme_el_def unnamed_scheme_def skos_def
        getitem_def get_sub_element_text_def find_def findall_def qname_def clark_def get_def
        lang_dict_def dict_of_def xml_namespace_def)
  have d: "ConceptScheme_to_dict unnamed_scheme ''en'' =
     [(''iri'', None), (''notation'', Some ''S1''), (''scopeNote'', Some []), (''prefLabel'', None)]"
    by (simp add: ConceptScheme_to_dict_def unnamed_scheme_def get_in_language_def dict_get_def)
  have n: "\<not> str_valued (ConceptScheme_to_dict unnamed_scheme ''en'')"
    unfolding d by (simp add: str_valued_def is_str_def)
  show ?thesis using parsed d n by (intro conjI)
qed

text \<open>
  Claim C10. Two records are equal under \<open>Base.__eq__\<close> exactly when their dictionaries
  in the default language are equal as dictionaries. For two schemes, and for two
  concepts, that is: they agree on the fields that are not labels and on each label
  localised to \<^verbatim>\<open>"en"\<close>. So records that agree there are equal whatever their labels in
  other languages are.
\<close>

theorem Base_eq_default_language:
  "(Base_eq x y \<longleftrightarrow> map_of (to_dict x) = map_of (to_dict y)) \<and>
   (Base_eq (A_ConceptScheme a) (A_ConceptScheme b) \<longleftrightarrow>
      ConceptScheme.iri a = ConceptScheme.iri b \<and>
      ConceptScheme.notation' a = ConceptScheme.notation' b \<and>
      scopeNote a = scopeNote b \<and>
      get_in_language (ConceptScheme.prefLabels a) ''en'' =
        get_in_language (ConceptScheme.prefLabels b) ''en'') \<and>
   (Base_eq (A_Concept c) (A_Concept d) \<longleftrightarrow>
      Concept_columns.iri c = Concept_columns.iri d \<and>
      identifier c = identifier d \<and>
      Concept_columns.notation' c = Concept_columns.notation' d \<and>
      get_in_language (Concept_columns.prefLabels c) ''en'' =
        get_in_language (Concept_columns.prefLabels d) ''en'' \<and>
      get_in_language (altLabels c) ''en'' = get_in_language (altLabels d) ''en'' \<and>
      get_in_language (scopeNotes c) ''en'' = get_in_language (scopeNotes d) ''en'')"
proof (intro conjI)
  show "Base_eq x y \<longleftrightarrow> map_of (to_dict x) = map_of (to_dict y)"
    unfolding Base_eq_def by (rule dict_eq_map_of) (rule to_dict_distinct_keys)+
qed (simp_all add: Base_eq_def ConceptScheme_to_dict_eq Concept_to_dict_eq)

theorem Base_eq_default_language_witness:
  "ConceptScheme.prefLabels (scheme_en_fr ''Nomenclature'') \<noteq>
     ConceptScheme.prefLabels (scheme_en_fr ''NC'') \<and>
   get_in_language (ConceptScheme.prefLabels (scheme_en_fr ''Nomenclature'')) ''fr'' \<noteq>
     get_in_language (ConceptScheme.prefLabels (scheme_en_fr ''NC'')) ''fr'' \<and>
   Base_eq (A_ConceptScheme (scheme_en_fr ''Nomenclature'')) (A_ConceptScheme (scheme_en_fr ''NC''))"
  using Base_eq_default_language [THEN conjunct2, THEN conjunct1,
      of "scheme_en_fr ''Nomenclature''" "scheme_en_fr ''NC''"]
  by (simp add: scheme_en_fr_def get_in_language_def dict_get_def)

section \<open>Reading relations from a concept element\<close>

lemma qname_core:
  "map_of namespaces ''core'' = Some uri \<Longrightarrow> qname (''core:'' @ local) namespaces = Inr (clark uri local)"
  by (simp add: qname_def)

lemma findall_core:
  "map_of namespaces ''core'' = Some uri \<Longrightarrow>
   findall element (''core:'' @ local) namespaces =
     Inr (filter (\<lambda>child. tag child = clark uri local) (children element))"
  unfolding findall_def by (subst qname_core) simp_all

lemma getitem_Some: "map_of d k = Some v \<Longrightarrow> getitem d k = Inr v"
  by (simp add: getitem_def)

lemma getitem_None: "map_of d k = None \<Longrightarrow> getitem d k = Inl (KeyError ([CHR 0x27] @ k @ [CHR 0x27]))"
  by (simp add: getitem_def)

lemma SemanticRelation_from_xml_element_bound:
  assumes "map_of (nsmap element) ''core'' = Some core" "map_of (nsmap element) ''rdf'' = Some rdf"
  shows "SemanticRelation_from_xml_element element =
    Inr (concat (map (\<lambda>relation_type.
      map (\<lambda>relation. \<lparr>type = relation_type,
                        source_concept_iri = get element (clark rdf ''about''),
                        target_concept_iri = get relation (clark rdf ''resource'')\<rparr>)
        (filter (\<lambda>child. tag child = clark core (value relation_type)) (children element)))
      SemanticRelationType_members))"
  unfolding SemanticRelation_from_xml_element_def findall_core [OF assms(1)] getitem_Some [OF assms(2)]
  by (simp add: mapM_Inr)

lemma clark_inj: "clark core a = clark core b \<longleftrightarrow> a = b"
  by (simp add: clark_def)

lemma mset_by_tag:
  assumes "distinct (map T tys)"
  shows "mset (concat (map (\<lambda>ty. map (mk ty) (filter (\<lambda>child. tag child = T ty) xs)) tys)) =
         mset (List.map_filter (\<lambda>child. map_option (\<lambda>ty. mk ty child)
                 (List.find (\<lambda>ty. tag child = T ty) tys)) xs)"
proof (induction xs)
  case Nil
  show ?case by (induction tys) (simp_all add: List.map_filter_simps)
next
  case (Cons x xs)
  have one: "mset (concat (map (\<lambda>ty. map (mk ty) (filter (\<lambda>child. tag child = T ty) (x # xs))) tys)) =
        mset (concat (map (\<lambda>ty. map (mk ty) (filter (\<lambda>child. tag child = T ty) xs)) tys)) +
        (case List.find (\<lambda>ty. tag x = T ty) tys of None \<Rightarrow> {#} | Some ty \<Rightarrow> {#mk ty x#})"
    using assms
  proof (induction tys)
    case Nil
    show ?case by simp
  next
    case (Cons t ts)
    then have "tag x = T t \<Longrightarrow> List.find (\<lambda>ty. tag x = T ty) ts = None"
      by (auto simp: find_None_iff)
    with Cons show ?case by (auto split: option.splits)
  qed
  show ?case
    unfolding one Cons.IH by (simp add: List.map_filter_simps split: option.splits)
qed

text \<open>
  Claim C5. For every concept element whose namespace map binds the prefixes
  \<^verbatim>\<open>core\<close> and \<^verbatim>\<open>rdf\<close>, as the documents the glossary reads do,
  \<open>SemanticRelation.from_xml_element\<close> returns one relation for each sub-element whose
  tag is one of the five relation tags, and nothing else: the relation has the type of
  that tag, the element's \<^verbatim>\<open>rdf:about\<close> as source and the sub-element's
  \<^verbatim>\<open>rdf:resource\<close> as target. The relations come grouped by type, so the equation is
  one of multisets; the number of relations is the number of such sub-elements.
\<close>

theorem from_xml_element_relations:
  assumes "map_of (nsmap element) ''core'' = Some core" "map_of (nsmap element) ''rdf'' = Some rdf"
  shows "\<exists>relations. SemanticRelation_from_xml_element element = Inr relations \<and>
           mset relations = mset (List.map_filter (relation_of element core rdf) (children element)) \<and>
           length relations =
             length (filter (\<lambda>child. tag child \<in> set (relation_tags core)) (children element))"
proof -
  let ?mk = "\<lambda>relation_type relation. \<lparr>type = relation_type,
                        source_concept_iri = get element (clark rdf ''about''),
                        target_concept_iri = get relation (clark rdf ''resource'')\<rparr>"
  let ?rels = "concat (map (\<lambda>relation_type.
      map (?mk relation_type)
        (filter (\<lambda>child. tag child = clark core (value relation_type)) (children element)))
      SemanticRelationType_members)"
  have d: "distinct (map (\<lambda>ty. clark core (value ty)) SemanticRelationType_members)"
    by (simp add: SemanticRelationType_members_def clark_inj)
  have m: "mset ?rels = mset (List.map_filter (relation_of element core rdf) (children element))"
    unfolding relation_of_def by (rule mset_by_tag [OF d])
  have "length (List.map_filter (relation_of element core rdf) xs) =
     length (filter (\<lambda>child. tag child \<in> set (relation_tags core)) xs)" for xs
  proof (induction xs)
    case Nil
    show ?case by (simp add: List.map_filter_simps)
  next
    case (Cons x xs)
    have "(relation_of element core rdf x = None) \<longleftrightarrow> tag x \<notin> set (relation_tags core)"
      by (auto simp: relation_of_def find_None_iff relation_tags_def)
    with Cons show ?case by (auto simp: List.map_filter_simps split: option.splits)
  qed
  note len = this [of "children element"]
  from m have "size (mset ?rels) =
      size (mset (List.map_filter (relation_of element core rdf) (children element)))"
    by (rule arg_cong)
  then have "length ?rels =
     length (filter (\<lambda>child. tag child \<in> set (relation_tags core)) (children element))"
    unfolding size_mset len .
  with m show ?thesis
    using SemanticRelation_from_xml_element_bound [OF assms] by blast
qed

lemma concept_el_core:
  "map_of (nsmap concept_el) ''core'' = Some ''http://www.w3.org/2004/02/skos/core#''"
  by (simp add: concept_el_def skos_def)

lemma concept_el_rdf:
  "map_of (nsmap concept_el) ''rdf'' = Some ''http://www.w3.org/1999/02/22-rdf-syntax-ns#''"
  by (simp add: concept_el_def skos_def)

lemma concept_el_relations:
  "List.map_filter (relation_of concept_el ''http://www.w3.org/2004/02/skos/core#''
       ''http://www.w3.org/1999/02/22-rdf-syntax-ns#'') (children concept_el) =
     [\<lparr>type = RELATED, source_concept_iri = Some ''urn:c1'', target_concept_iri = Some ''urn:c3''\<rparr>,
      \<lparr>type = BROADER, source_concept_iri = Some ''urn:c1'', target_concept_iri = Some ''urn:c2''\<rparr>]"
  by (simp add: concept_el_def leaf_def relation_of_def SemanticRelationType_members_def
      clark_def get_def List.map_filter_simps)

lemma concept_el_relation_children:
  "length (filter (\<lambda>child. tag child \<in> set (relation_tags ''http://www.w3.org/2004/02/skos/core#''))
     (children concept_el)) = 2"
  by (simp add: concept_el_def leaf_def relation_tags_def SemanticRelationType_members_def clark_def)

theorem from_xml_element_relations_witness:
  "map_of (nsmap concept_el) ''core'' = Some ''http://www.w3.org/2004/02/skos/core#'' \<and>
   map_of (nsmap concept_el) ''rdf'' = Some ''http://www.w3.org/1999/02/22-rdf-syntax-ns#'' \<and>
   (\<exists>relations. SemanticRelation_from_xml_element concept_el = Inr relations \<and>
      mset relations =
        {#\<lparr>type = RELATED, source_concept_iri = Some ''urn:c1'', target_concept_iri = Some ''urn:c3''\<rparr>,
          \<lparr>type = BROADER, source_concept_iri = Some ''urn:c1'', target_concept_iri = Some ''urn:c2''\<rparr>#} \<and>
      length relations = 2)"
proof -
  from from_xml_element_relations [OF concept_el_core concept_el_rdf] obtain relations where
    "SemanticRelation_from_xml_element concept_el = Inr relations"
    "mset relations = mset (List.map_filter (relation_of concept_el ''http://www.w3.org/2004/02/skos/core#''
               ''http://www.w3.org/1999/02/22-rdf-syntax-ns#'') (children concept_el))"
    "length relations = length (filter (\<lambda>child. tag child \<in> set (relation_tags ''http://www.w3.org/2004/02/skos/core#''))
               (children concept_el))"
    by (elim exE conjE)
  then have "SemanticRelation_from_xml_element concept_el = Inr relations \<and>
      mset relations =
        {#\<lparr>type = RELATED, source_concept_iri = Some ''urn:c1'', target_concept_iri = Some ''urn:c3''\<rparr>,
          \<lparr>type = BROADER, source_concept_iri = Some ''urn:c1'', target_concept_iri = Some ''urn:c2''\<rparr>#} \<and>
      length relations = 2"
    unfolding concept_el_relations concept_el_relation_children by simp
  then show ?thesis
    using concept_el_core concept_el_rdf by (intro conjI exI [of _ relations]) simp_all
qed

text \<open>
  The prefixes are looked up by name. An element whose map does not bind \<^verbatim>\<open>core\<close> makes
  the search raise, and one that binds \<^verbatim>\<open>core\<close> but not \<^verbatim>\<open>rdf\<close> raises KeyError at its
  first relation sub-element.
\<close>

lemma from_xml_element_unbound_core:
  assumes "map_of (nsmap element) ''core'' = None"
  shows "SemanticRelation_from_xml_element element =
     Inl (SyntaxError (''prefix '' @ [CHR 0x27] @ ''core'' @ [CHR 0x27] @ '' not found in prefix map''))"
  using assms
  by (simp add: SemanticRelation_from_xml_element_def SemanticRelationType_members_def findall_def
      qname_def)

lemma from_xml_element_unbound_rdf:
  assumes "map_of (nsmap element) ''core'' = Some core" "map_of (nsmap element) ''rdf'' = None"
    and "children element = [child]" "tag child = clark core ''broader''"
  shows "SemanticRelation_from_xml_element element = Inl (KeyError ([CHR 0x27] @ ''rdf'' @ [CHR 0x27]))"
  unfolding SemanticRelation_from_xml_element_def findall_core [OF assms(1)] getitem_None [OF assms(2)]
  by (simp add: SemanticRelationType_members_def assms(3,4))

section \<open>Transactions\<close>

lemma with_rows_Nil [simp]: "with_rows db [] = db"
  by (simp add: with_rows_def scheme_rows_def concept_rows_def in_scheme_rows_def relation_rows_def)

lemma insert_row_with_rows: "insert_row db r = Inr db' \<Longrightarrow> db' = with_rows db [r]"
  by (cases r)
     (auto simp: with_rows_def scheme_rows_def concept_rows_def in_scheme_rows_def relation_rows_def
       split: if_splits)

lemma with_rows_Cons: "with_rows (with_rows db [r]) rs = with_rows db (r # rs)"
  by (simp add: with_rows_def scheme_rows_def concept_rows_def in_scheme_rows_def relation_rows_def)

lemma execute_stored: "execute s rows = (s', outcome) \<Longrightarrow> stored s' = stored s \<and> new s' = new s"
proof (induction rows arbitrary: s)
  case Nil
  then show ?case by simp
next
  case (Cons r rs)
  show ?case
  proof (cases "insert_row (connection s) r")
    case (Inl e)
    with Cons.prems show ?thesis by simp
  next
    case (Inr db)
    with Cons.prems have "execute (s\<lparr>connection := db\<rparr>) rs = (s', outcome)" by simp
    from Cons.IH [OF this] show ?thesis by simp
  qed
qed

lemma execute_done:
  "execute s rows = (s', Inr u) \<Longrightarrow> connection s' = with_rows (connection s) rows"
proof (induction rows arbitrary: s)
  case Nil
  then show ?case by simp
next
  case (Cons r rs)
  show ?case
  proof (cases "insert_row (connection s) r")
    case (Inl e)
    with Cons.prems show ?thesis by simp
  next
    case (Inr db)
    with Cons.prems have "execute (s\<lparr>connection := db\<rparr>) rs = (s', Inr u)" by simp
    from Cons.IH [OF this] have "connection s' = with_rows db rs" by simp
    with insert_row_with_rows [OF Inr] show ?thesis by (simp add: with_rows_Cons)
  qed
qed

lemma commit_cases:
  "(\<exists>s' e. commit s = (s', Inl e) \<and> stored s' = stored s \<and> connection s' = stored s) \<or>
   (\<exists>s'. commit s = (s', Inr ()) \<and> stored s' = with_rows (connection s) (unit_of_work (new s)) \<and>
      connection s' = stored s')"
proof (cases "execute s (unit_of_work (new s))")
  case (Pair s' outcome)
  show ?thesis
  proof (cases outcome)
    case (Inl e)
    with Pair execute_stored [OF Pair] show ?thesis
      by (simp add: commit_def rollback_def)
  next
    case (Inr u)
    with Pair execute_done [of s "unit_of_work (new s)" s' u] show ?thesis
      by (simp add: commit_def)
  qed
qed

lemma concat_map_Nil: "concat (map (\<lambda>x. []) xs) = []"
  by (induction xs) simp_all

lemma pending_simps:
  "pending_schemes (map A_ConceptScheme a @ map A_Concept b @ map A_SemanticRelation c) = a"
  "pending_concepts (map A_ConceptScheme a @ map A_Concept b @ map A_SemanticRelation c) = b"
  "pending_relations (map A_ConceptScheme a @ map A_Concept b @ map A_SemanticRelation c) = c"
  by (simp_all add: pending_schemes_def pending_concepts_def pending_relations_def
      o_def concat_map_singleton concat_map_Nil)


lemma save_dataset_cases:
  "(\<exists>e. save_dataset engine schemes concepts semantic_relations = (engine, Inl e)) \<or>
   save_dataset engine schemes concepts semantic_relations =
     (with_rows engine (batch_rows (schemes, concepts, semantic_relations)), Inr ())"
proof -
  let ?s = "add_all (add_all (add_all (Session engine) (map A_ConceptScheme schemes))
              (map A_Concept concepts)) (map A_SemanticRelation semantic_relations)"
  have s: "stored ?s = engine" "connection ?s = engine"
    "new ?s = map A_ConceptScheme schemes @ map A_Concept concepts @
              map A_SemanticRelation semantic_relations"
    by (simp_all add: Session_def add_all_def)
  have sd: "save_dataset engine schemes concepts semantic_relations =
      (case commit ?s of (session, outcome) \<Rightarrow> (stored (close session), outcome))"
    by (simp add: save_dataset_def Let_def)
  from commit_cases [of ?s] show ?thesis
    unfolding sd s by (auto simp: close_def rollback_def batch_rows_def)
qed

lemma concat_concat_singletons:
  "concat (concat (map (\<lambda>x. map (\<lambda>y. [f y x]) (g x)) xs)) = concat (map (\<lambda>x. map (\<lambda>y. f y x) (g x)) xs)"
  by (induction xs) (simp_all add: concat_map_singleton)

lemma with_rows_batch:
  "concept_schemes_table (with_rows engine (batch_rows (schemes, concepts, semantic_relations))) =
     concept_schemes_table engine @ schemes @
       cascaded_schemes (map A_ConceptScheme schemes @ map A_Concept concepts @
                         map A_SemanticRelation semantic_relations)"
  "concepts_table (with_rows engine (batch_rows (schemes, concepts, semantic_relations))) =
     concepts_table engine @ map Concept_columns.truncate concepts"
  "in_scheme_table (with_rows engine (batch_rows (schemes, concepts, semantic_relations))) =
     in_scheme_table engine @
       concat (map (\<lambda>c. map (\<lambda>s. (ConceptScheme.iri s, Concept_columns.iri c)) (concept_schemes c))
                 concepts)"
  "semantic_relations_table (with_rows engine (batch_rows (schemes, concepts, semantic_relations))) =
     semantic_relations_table engine @ semantic_relations"
  unfolding with_rows_def batch_rows_def unit_of_work_def pending_simps
  by (simp_all add: scheme_rows_def concept_rows_def in_scheme_rows_def relation_rows_def
      o_def concat_map_singleton concat_map_Nil map_concat concat_concat_singletons)


lemma persisted_with_rows:
  "persisted (with_rows engine (batch_rows b)) b"
proof (cases b)
  case (fields schemes concepts semantic_relations)
  let ?all = "map A_ConceptScheme schemes @ map A_Concept concepts @
              map A_SemanticRelation semantic_relations"
  have "s \<in> set schemes \<union> set (cascaded_schemes ?all)"
    if "c \<in> set concepts" "s \<in> set (concept_schemes c)" for s c
    using that by (auto simp: cascaded_schemes_def pending_simps)
  then show ?thesis
    unfolding fields persisted_def with_rows_batch by auto
qed

text \<open>
  Claim C8. \<open>save_dataset\<close> is atomic. For every engine and every batch, either the
  call raises and the database holds exactly what it held before, or the call returns
  and every table holds its former rows followed by the rows of the batch: the schemes
  (with those that concepts of the batch belong to), the concepts, their memberships and
  the relations.
\<close>

theorem save_dataset_atomic:
  "(\<exists>e. save_dataset engine schemes concepts semantic_relations = (engine, Inl e)) \<or>
   (\<exists>engine'. save_dataset engine schemes concepts semantic_relations = (engine', Inr ()) \<and>
      concept_schemes_table engine' = concept_schemes_table engine @ schemes @
        cascaded_schemes (map A_ConceptScheme schemes @ map A_Concept concepts @
                          map A_SemanticRelation semantic_relations) \<and>
      concepts_table engine' = concepts_table engine @ map Concept_columns.truncate concepts \<and>
      in_scheme_table engine' = in_scheme_table engine @
        concat (map (\<lambda>c. map (\<lambda>s. (ConceptScheme.iri s, Concept_columns.iri c)) (concept_schemes c))
                  concepts) \<and>
      semantic_relations_table engine' = semantic_relations_table engine @ semantic_relations \<and>
      persisted engine' (schemes, concepts, semantic_relations))"
  using save_dataset_cases [of engine schemes concepts semantic_relations]
    with_rows_batch [of engine schemes concepts semantic_relations]
    persisted_with_rows [of engine "(schemes, concepts, semantic_relations)"]
  by auto


lemmas session_defs = save_dataset_def Session_def add_all_def commit_def close_def rollback_def
  unit_of_work_def pending_schemes_def pending_concepts_def pending_relations_def
  cascaded_schemes_def empty_database_def Let_def

lemma save_fails:
  "save_dataset empty_database [scheme_en_fr ''NC''] [live_horses] [horses_broader] =
     (empty_database, Inl (IntegrityError ''foreign key violation in table semantic_relations''))"
  by (simp add: session_defs scheme_en_fr_def live_horses_def horses_broader_def
      Concept_columns.truncate_def Concept_columns.defs Concept.defs)

lemma save_ok:
  "snd (save_dataset empty_database [scheme_en_fr ''NC''] [live_horses] []) = Inr ()"
  by (simp add: session_defs scheme_en_fr_def live_horses_def
      Concept_columns.truncate_def Concept_columns.defs Concept.defs)




theorem save_dataset_atomic_witness:
  "save_dataset empty_database [scheme_en_fr ''NC''] [live_horses] [horses_broader] =
     (empty_database, Inl (IntegrityError ''foreign key violation in table semantic_relations'')) \<and>
   (\<exists>engine'. save_dataset empty_database [scheme_en_fr ''NC''] [live_horses] [] = (engine', Inr ()) \<and>
      concept_schemes_table engine' = [scheme_en_fr ''NC''] \<and>
      concepts_table engine' = [Concept_columns.truncate live_horses] \<and>
      in_scheme_table engine' = [(Some ''http://data.europa.eu/xsp/cn2024/cn2024'',
                                  Some ''http://data.europa.eu/xsp/cn2024/010100000080'')] \<and>
      semantic_relations_table engine' = [] \<and>
      persisted engine' ([scheme_en_fr ''NC''], [live_horses], []))"
proof -
  have c: "cascaded_schemes (map A_ConceptScheme [scheme_en_fr ''NC''] @ map A_Concept [live_horses] @
             map A_SemanticRelation []) = []"
    by (simp add: cascaded_schemes_def pending_schemes_def pending_concepts_def live_horses_def)
  have m: "concat (map (\<lambda>c. map (\<lambda>s. (ConceptScheme.iri s, Concept_columns.iri c)) (concept_schemes c))
             [live_horses]) =
           [(Some ''http://data.europa.eu/xsp/cn2024/cn2024'',
             Some ''http://data.europa.eu/xsp/cn2024/010100000080'')]"
    by (simp add: live_horses_def scheme_en_fr_def)
  from save_dataset_atomic [of empty_database "[scheme_en_fr ''NC'']" "[live_horses]" "[]"] save_ok
  have "\<exists>engine'. save_dataset empty_database [scheme_en_fr ''NC''] [live_horses] [] = (engine', Inr ()) \<and>
      concept_schemes_table engine' = [scheme_en_fr ''NC''] \<and>
      concepts_table engine' = [Concept_columns.truncate live_horses] \<and>
      in_scheme_table engine' = [(Some ''http://data.europa.eu/xsp/cn2024/cn2024'',
                                  Some ''http://data.europa.eu/xsp/cn2024/010100000080'')] \<and>
      semantic_relations_table engine' = [] \<and>
      persisted engine' ([scheme_en_fr ''NC''], [live_horses], [])"
    unfolding c m by (auto simp: empty_database_def)
  with save_fails show ?thesis by (rule_tac conjI)
qed



section \<open>Queries\<close>

text \<open>
  Claim C6. For every stored set of relations and every concept IRI, \<open>get_relations\<close>
  returns exactly the stored relations that have the IRI as source or as target: the
  same relations, each as often as it is stored, and no others.
\<close>

theorem get_relations_endpoints:
  "set (get_relations engine concept_iri) =
     {r \<in> set (semantic_relations_table engine).
        source_concept_iri r = Some concept_iri \<or> target_concept_iri r = Some concept_iri} \<and>
   (\<forall>r. count (mset (get_relations engine concept_iri)) r =
      (if source_concept_iri r = Some concept_iri \<or> target_concept_iri r = Some concept_iri
       then count (mset (semantic_relations_table engine)) r else 0))"
  by (auto simp: get_relations_def)

theorem get_relations_endpoints_witness:
  "get_relations cn_db ''urn:horses'' =
     [\<lparr>type = BROADER, source_concept_iri = Some ''urn:horses'', target_concept_iri = Some ''urn:animals''\<rparr>,
      \<lparr>type = NARROWER, source_concept_iri = Some ''urn:animals'', target_concept_iri = Some ''urn:horses''\<rparr>] \<and>
   \<lparr>type = NARROWER, source_concept_iri = Some ''urn:animals'', target_concept_iri = Some ''urn:fish''\<rparr>
     \<in> set (semantic_relations_table cn_db) \<and>
   \<lparr>type = NARROWER, source_concept_iri = Some ''urn:animals'', target_concept_iri = Some ''urn:fish''\<rparr>
     \<notin> set (get_relations cn_db ''urn:horses'')"
proof -
  have stored: "\<lparr>type = NARROWER, source_concept_iri = Some ''urn:animals'',
      target_concept_iri = Some ''urn:fish''\<rparr> \<in> set (semantic_relations_table cn_db)"
    by (simp add: cn_db_def)
  have got: "get_relations cn_db ''urn:horses'' =
     [\<lparr>type = BROADER, source_concept_iri = Some ''urn:horses'', target_concept_iri = Some ''urn:animals''\<rparr>,
      \<lparr>type = NARROWER, source_concept_iri = Some ''urn:animals'', target_concept_iri = Some ''urn:horses''\<rparr>]"
    by (simp add: get_relations_def cn_db_def)
  from get_relations_endpoints [of cn_db "''urn:horses''", THEN conjunct1]
  have "\<lparr>type = NARROWER, source_concept_iri = Some ''urn:animals'',
      target_concept_iri = Some ''urn:fish''\<rparr> \<notin> set (get_relations cn_db ''urn:horses'')"
    by simp
  with stored got show ?thesis by simp
qed

lemma filter_key_le_one:
  "distinct (map f xs) \<Longrightarrow> length (filter (\<lambda>x. f x = k) xs) \<le> 1"
proof (induction xs)
  case Nil
  then show ?case by simp
next
  case (Cons x xs)
  from Cons.prems have nin: "f x \<notin> f ` set xs" and d: "distinct (map f xs)" by simp_all
  have "filter (\<lambda>x. f x = k) xs = []" if "f x = k"
  proof -
    have False if "y \<in> set xs" "f y = k" for y
    proof -
      from that \<open>f x = k\<close> have "f x \<in> f ` set xs" by (metis imageI)
      with nin show False ..
    qed
    then show ?thesis by (auto simp: filter_empty_conv)
  qed
  with Cons.IH [OF d] show ?case by auto
qed

text \<open>
  Claim C7. For every database whose concepts have distinct IRIs (the IRI is the primary
  key) and every concept IRI, \<open>get_concept\<close> returns the stored concept with that IRI
  if there is one and None if there is none, and it does not raise.
\<close>

theorem get_concept_unique:
  assumes "distinct (map Concept_columns.iri (concepts_table engine))"
  shows "(\<forall>c \<in> set (concepts_table engine).
            Concept_columns.iri c = Some concept_iri \<longrightarrow> get_concept engine concept_iri = Inr (Some c)) \<and>
         ((\<forall>c \<in> set (concepts_table engine). Concept_columns.iri c \<noteq> Some concept_iri)
            \<longrightarrow> get_concept engine concept_iri = Inr None) \<and>
         (\<forall>e. get_concept engine concept_iri \<noteq> Inl e)"
proof -
  let ?found = "filter (\<lambda>c. Concept_columns.iri c = Some concept_iri) (concepts_table engine)"
  from filter_key_le_one [OF assms, of "Some concept_iri"] have le: "length ?found \<le> 1" .
  have found: "c \<in> set ?found"
    if "c \<in> set (concepts_table engine)" "Concept_columns.iri c = Some concept_iri" for c
    using that by simp
  show ?thesis
  proof (cases ?found)
    case Nil
    have g: "get_concept engine concept_iri = Inr None"
      unfolding get_concept_def Nil by (simp add: one_or_none_def)
    have "Concept_columns.iri c \<noteq> Some concept_iri" if "c \<in> set (concepts_table engine)" for c
      using found [OF that] unfolding Nil by auto
    with g show ?thesis by simp
  next
    case (Cons c cs)
    with le have cs: "cs = []" by simp
    have g: "get_concept engine concept_iri = Inr (Some c)"
      unfolding get_concept_def Cons cs by (simp add: one_or_none_def)
    have uniq: "c' = c"
      if "c' \<in> set (concepts_table engine)" "Concept_columns.iri c' = Some concept_iri" for c'
      using found [OF that] unfolding Cons cs by simp
    have "c \<in> set ?found" unfolding Cons by simp
    then have mem: "c \<in> set (concepts_table engine)" "Concept_columns.iri c = Some concept_iri"
      by simp_all
    show ?thesis
    proof (intro conjI ballI impI allI)
      fix c' assume "c' \<in> set (concepts_table engine)" "Concept_columns.iri c' = Some concept_iri"
      from uniq [OF this] g show "get_concept engine concept_iri = Inr (Some c')" by simp
    next
      assume "\<forall>c \<in> set (concepts_table engine). Concept_columns.iri c \<noteq> Some concept_iri"
      with mem show "get_concept engine concept_iri = Inr None" by blast
    next
      fix e show "get_concept engine concept_iri \<noteq> Inl e" using g by simp
    qed
  qed
qed

theorem get_concept_unique_witness:
  "distinct (map Concept_columns.iri (concepts_table cn_db)) \<and>
   concept_row ''urn:horses'' ''Live horses'' \<in> set (concepts_table cn_db) \<and>
   get_concept cn_db ''urn:horses'' = Inr (Some (concept_row ''urn:horses'' ''Live horses'')) \<and>
   get_concept cn_db ''urn:birds'' = Inr None"
proof -
  have d: "distinct (map Concept_columns.iri (concepts_table cn_db))"
    by (simp add: cn_db_def concept_row_def)
  have m: "concept_row ''urn:horses'' ''Live horses'' \<in> set (concepts_table cn_db)"
    "Concept_columns.iri (concept_row ''urn:horses'' ''Live horses'') = Some ''urn:horses''"
    by (simp_all add: cn_db_def concept_row_def)
  have n: "\<forall>c \<in> set (concepts_table cn_db). Concept_columns.iri c \<noteq> Some ''urn:birds''"
    by (simp add: cn_db_def concept_row_def)
  note horses = get_concept_unique [OF d, of "''urn:horses''", THEN conjunct1, THEN bspec,
      OF m(1), THEN mp, OF m(2)]
  note birds = get_concept_unique [OF d, of "''urn:birds''", THEN conjunct2, THEN conjunct1,
      THEN mp, OF n]
  from horses birds have "get_concept cn_db ''urn:horses'' =
      Inr (Some (concept_row ''urn:horses'' ''Live horses'')) \<and>
    get_concept cn_db ''urn:birds'' = Inr None"
    by (rule conjI)
  then show ?thesis using d m(1) by simp
qed

text \<open>
  The hypothesis of C7 holds of every database the program builds: the tables start
  empty and \<open>save_dataset\<close> keeps the IRIs of the concepts distinct.
\<close>

lemma insert_row_keeps_iris_distinct:
  "distinct (map Concept_columns.iri (concepts_table db)) \<Longrightarrow> insert_row db r = Inr db' \<Longrightarrow>
   distinct (map Concept_columns.iri (concepts_table db'))"
  by (cases r) (auto split: if_splits)

lemma execute_keeps_iris_distinct:
  "distinct (map Concept_columns.iri (concepts_table (connection s))) \<Longrightarrow>
   execute s rows = (s', outcome) \<Longrightarrow>
   distinct (map Concept_columns.iri (concepts_table (connection s')))"
proof (induction rows arbitrary: s)
  case Nil
  then show ?case by simp
next
  case (Cons r rs)
  show ?case
  proof (cases "insert_row (connection s) r")
    case (Inl e)
    with Cons.prems show ?thesis by simp
  next
    case (Inr db)
    with Cons.prems have "execute (s\<lparr>connection := db\<rparr>) rs = (s', outcome)" by simp
    moreover from insert_row_keeps_iris_distinct [OF Cons.prems(1) Inr]
    have "distinct (map Concept_columns.iri (concepts_table (connection (s\<lparr>connection := db\<rparr>))))"
      by simp
    ultimately show ?thesis by (rule Cons.IH [rotated])
  qed
qed

lemma save_dataset_keeps_iris_distinct:
  assumes "distinct (map Concept_columns.iri (concepts_table engine))"
    and "save_dataset engine schemes concepts semantic_relations = (engine', outcome)"
  shows "distinct (map Concept_columns.iri (concepts_table engine'))"
proof -
  let ?s = "add_all (add_all (add_all (Session engine) (map A_ConceptScheme schemes))
              (map A_Concept concepts)) (map A_SemanticRelation semantic_relations)"
  have s: "stored ?s = engine" "connection ?s = engine"
    by (simp_all add: Session_def add_all_def)
  obtain s1 r1 where e: "execute ?s (unit_of_work (new ?s)) = (s1, r1)"
    by (cases "execute ?s (unit_of_work (new ?s))")
  from execute_keeps_iris_distinct [OF _ e] assms(1) s
  have d1: "distinct (map Concept_columns.iri (concepts_table (connection s1)))" by simp
  from execute_stored [OF e] s have st: "stored s1 = engine" by simp
  have "engine' = engine \<or> engine' = connection s1"
    using assms(2) e st
    by (cases r1) (auto simp: save_dataset_def Let_def commit_def close_def rollback_def)
  with d1 assms(1) show ?thesis by auto
qed

lemma empty_database_iris_distinct:
  "distinct (map Concept_columns.iri (concepts_table empty_database))"
  by (simp add: empty_database_def)

section \<open>The two calls that raise\<close>

text \<open>
  \<open>Concept.from_xml_element\<close> itself resolves the memberships as C1 says: given the
  parsed schemes, the concept's schemes are those whose IRI is among the
  \<^verbatim>\<open>rdf:resource\<close> attributes of its \<^verbatim>\<open>core:inScheme\<close> sub-elements.
\<close>

lemma Concept_from_xml_element_membership:
  assumes "map_of (nsmap element) ''core'' = Some core" "map_of (nsmap element) ''rdf'' = Some rdf"
    and "map_of (nsmap element) ''x_1.1'' = Some dc"
  shows "\<exists>c. Concept_from_xml_element element schemes = Inr c \<and>
           concept_schemes c =
             filter (\<lambda>s. ConceptScheme.iri s \<in>
                           set (map (\<lambda>scheme_element. get scheme_element (clark rdf ''resource''))
                                  (filter (\<lambda>child. tag child = clark core ''inScheme'')
                                     (children element))))
               schemes"
proof -
  have id: "findall element ''x_1.1:identifier'' (nsmap element) =
      Inr (filter (\<lambda>child. tag child = clark dc ''identifier'') (children element))"
    using assms(3) by (simp add: findall_def qname_def)
  have core: "findall element ''core:inScheme'' (nsmap element) =
      Inr (filter (\<lambda>child. tag child = clark core ''inScheme'') (children element))"
    "findall element ''core:notation'' (nsmap element) =
      Inr (filter (\<lambda>child. tag child = clark core ''notation'') (children element))"
    "findall element ''core:prefLabel'' (nsmap element) =
      Inr (filter (\<lambda>child. tag child = clark core ''prefLabel'') (children element))"
    "findall element ''core:altLabel'' (nsmap element) =
      Inr (filter (\<lambda>child. tag child = clark core ''altLabel'') (children element))"
    "findall element ''core:scopeNote'' (nsmap element) =
      Inr (filter (\<lambda>child. tag child = clark core ''scopeNote'') (children element))"
    using assms(1) by (simp_all add: findall_def qname_def)
  show ?thesis
    unfolding Concept_from_xml_element_def get_sub_element_text_def find_def id core
      getitem_Some [OF assms(2)]
    by (simp add: mapM_Inr)
qed

text \<open>
  \<open>parse_dataset\<close>, however, calls it with the element alone. So \<open>parse_dataset\<close>
  returns only for documents without concept elements, and a result of it never holds a
  concept or a relation.
\<close>

lemma parse_dataset_never_gives_concepts:
  assumes "parse_dataset parser dataset_path = Inr (schemes, concepts, semantic_relations)"
  shows "concepts = [] \<and> semantic_relations = []"
proof -
  from assms obtain root ses ces where
    ces: "findall root ''core:Concept'' (nsmap root) = Inr ces"
    and rest: "bind (mapM (\<lambda>concept_element. call_Concept_from_xml_element concept_element None) ces)
       (\<lambda>concepts'. bind (mapM SemanticRelation_from_xml_element ces)
         (\<lambda>per_element. Inr (schemes, concepts', concat per_element))) =
         Inr (schemes, concepts, semantic_relations)"
    by (auto simp: parse_dataset_def bind_def split: sum.splits)
  have "ces = []"
  proof (cases ces)
    case (Cons c cs)
    then show ?thesis using rest by (simp add: call_Concept_from_xml_element_def)
  qed simp
  with rest show ?thesis by simp
qed


lemma concept_el_parsed:
  "\<exists>c. Concept_from_xml_element concept_el [scheme_s1] = Inr c \<and> concept_schemes c = [scheme_s1]"
  by (simp add: Concept_from_xml_element_def concept_el_def leaf_def scheme_s1_def skos_def getitem_def
      get_sub_element_text_def find_def findall_def qname_def clark_def get_def lang_dict_def
      dict_of_def xml_namespace_def)

text \<open>
  Claim C1 (the code departs from it). A document with the scheme \<^verbatim>\<open>urn:s1\<close> and one
  concept that is \<^verbatim>\<open>inScheme\<close> \<^verbatim>\<open>urn:s1\<close>: the claim expects a concept record whose
  schemes are that scheme, and \<open>parse_dataset\<close> raises TypeError instead.
\<close>

theorem parse_dataset_raises_TypeError:
  "parse_dataset (\<lambda>path. Inr (rdf_document [scheme_el, concept_el])) ''sample.rdf'' =
     Inl (TypeError (''Concept.from_xml_element() missing 1 required positional argument: '' @
                     [CHR 0x27] @ ''concept_schemes'' @ [CHR 0x27]))"
  by (simp add: parse_dataset_def rdf_document_def findall_def qname_def skos_def clark_def
      scheme_el_def concept_el_def leaf_def call_Concept_from_xml_element_def
      ConceptScheme_from_xml_element_def getitem_def get_sub_element_text_def find_def)

text \<open>
  \<open>get_concepts\<close> filters on \<^verbatim>\<open>Concept.scheme_iri\<close>, an attribute the class does not
  have (membership is the relationship \<^verbatim>\<open>concept_schemes\<close> through \<^verbatim>\<open>in_scheme\<close>), so
  it raises for every database and every IRI.
\<close>

lemma get_concepts_always_raises:
  "get_concepts engine concept_scheme_iri =
     Inl (AttributeError (''type object '' @ [CHR 0x27] @ ''Concept'' @ [CHR 0x27] @
            '' has no attribute '' @ [CHR 0x27] @ ''scheme_iri'' @ [CHR 0x27]))"
  by (simp add: get_concepts_def Concept_getattr_def)

text \<open>
  Claim C2 (the code departs from it). In \<open>cn_db\<close> all three concepts belong to the
  scheme: the claim expects them as the result, and \<open>get_concepts\<close> raises
  AttributeError instead.
\<close>

theorem get_concepts_raises_AttributeError:
  "concepts_in_scheme cn_db ''http://data.europa.eu/xsp/cn2024/cn2024'' = concepts_table cn_db \<and>
   get_concepts cn_db ''http://data.europa.eu/xsp/cn2024/cn2024'' =
     Inl (AttributeError (''type object '' @ [CHR 0x27] @ ''Concept'' @ [CHR 0x27] @
            '' has no attribute '' @ [CHR 0x27] @ ''scheme_iri'' @ [CHR 0x27]))"
  by (simp add: get_concepts_def Concept_getattr_def concepts_in_scheme_def cn_db_def concept_row_def)

section \<open>Batch ingestion\<close>


lemma init_datasets_unconfigured:
  "init_engine None True getenv server = Inl e \<Longrightarrow>
   init_datasets libs getenv data_dir items reload w server = Inl e"
  by (simp add: init_datasets_def)











text \<open>The configured datasets have distinct names.\<close>

lemma datasets_distinct: "distinct (map fst datasets)"
  by (simp add: datasets_def)















end
